theory Spec2Isabelle
  imports Complex_Main "HOL-Library.Log_Nat"
begin

section \<open>smfc: fan controller for Super Micro boards (smfc.py)\<close>

text \<open>
  The development follows \<^verbatim>\<open>src/src/smfc.py\<close>. Conventions of the embedding:
  \<^item> a Python \<^verbatim>\<open>float\<close> is the rational value (\<^typ>\<open>rat\<close>) of an IEEE 754 binary64
    number; every sum, difference, product and quotient of floats is the exact result
    rounded by \<open>fl\<close> to the nearest binary64 number, a tie to the even one, with the
    gradual underflow below \<open>2 ^ - 1022\<close>; comparisons are exact. Infinities and NaN,
    and therefore results beyond the largest binary64 number, are not modelled.
    A Python \<^verbatim>\<open>int\<close> is \<^typ>\<open>int\<close>;
  \<^item> an exception is a value of \<open>py_error\<close>; a method that mutates \<^verbatim>\<open>self\<close> returns
    the outcome, the object as it is when the method returns or raises, and the list of
    calls it made on the outside world (\<open>event\<close>), oldest first;
  \<^item> the outside world of one tick is a record \<open>env\<close>: the clock readings, the content of
    the hwmon files and the answers of the external commands.
\<close>

subsection \<open>Exceptions, events, the outside world\<close>

datatype py_error =
    ValueError string
  | IOError string
  | FileNotFoundError string
  | Exception string
  | ZeroDivisionError
  | IndexError

datatype 'a outcome = Return 'a | Raise py_error

text \<open>Arguments of a formatted message; the rendering of the f-string is not modelled.\<close>

datatype arg = S string | I int | R rat | L "string list"

datatype log_text = Fmt string "arg list"

text \<open>
  \<open>LogMsg level text\<close> is a call \<^verbatim>\<open>self.log.msg(level, text)\<close>;
  \<open>Run argv\<close> is a call \<^verbatim>\<open>subprocess.run(argv, ...)\<close>;
  \<open>Sleep d\<close> is a call \<^verbatim>\<open>time.sleep(d)\<close>.
\<close>

datatype event = LogMsg int log_text | Run "string list" | Sleep rat

record env =
  time_fc :: rat
  time_hd :: rat
  read_float :: "string \<Rightarrow> py_error + rat"
  subprocess_run :: "string list \<Rightarrow> py_error + int \<times> string"
  glob_glob :: "string \<Rightarrow> string list"
  isfile :: "string \<Rightarrow> bool"
  islink :: "string \<Rightarrow> bool"
  readlink :: "string \<Rightarrow> py_error + string"
  listdir :: "string \<Rightarrow> py_error + string list"

text \<open>
  One \<open>env\<close> is the outside world during one call of a constructor or of \<^verbatim>\<open>run\<close>:
  \<open>time_fc\<close> is the value of \<^verbatim>\<open>time.monotonic()\<close> read in class \<^verbatim>\<open>FanController\<close>
  (by \<^verbatim>\<open>__init__\<close> or by \<^verbatim>\<open>run\<close>), \<open>time_hd\<close> the one read in class \<^verbatim>\<open>HdZone\<close>
  (by \<^verbatim>\<open>__init__\<close> or by \<^verbatim>\<open>run_standby_guard\<close>);
  \<open>read_float p\<close> is \<^verbatim>\<open>float(open(p).read())\<close>, the exception when the file cannot be
  opened or its content is no number;
  \<open>subprocess_run argv\<close> is the exception raised by \<^verbatim>\<open>subprocess.run\<close> or the return
  code and the standard output of the command;
  the other fields are \<^verbatim>\<open>glob.glob\<close>, \<^verbatim>\<open>os.path.isfile\<close>, \<^verbatim>\<open>os.path.islink\<close>,
  \<^verbatim>\<open>os.readlink\<close> and \<^verbatim>\<open>os.listdir\<close>.
\<close>

subsection \<open>class Log\<close>

definition LOG_NONE :: int where "LOG_NONE = 0"
definition LOG_ERROR :: int where "LOG_ERROR = 1"
definition LOG_INFO :: int where "LOG_INFO = 2"
definition LOG_DEBUG :: int where "LOG_DEBUG = 3"

record log =
  log_level :: int
  log_output :: int

text \<open>
  \<^verbatim>\<open>msg_to_syslog\<close>, \<^verbatim>\<open>msg_to_stdout\<close> and \<^verbatim>\<open>msg_to_stderr\<close> share one gate: a message
  is written when its level is not \<^verbatim>\<open>LOG_NONE\<close> and does not exceed the configured one.
\<close>

definition msg_written :: "log \<Rightarrow> event \<Rightarrow> bool" where
  "msg_written lg ev =
     (case ev of
        LogMsg level text \<Rightarrow> level \<noteq> LOG_NONE \<and> level \<le> log_level lg
      | _ \<Rightarrow> False)"

subsection \<open>Strings, paths and numbers of the Python library\<close>

text \<open>
  A \<^typ>\<open>string\<close> is a list of bytes; the line boundaries and the white space of Python
  beyond ASCII are not modelled.
\<close>

fun str_nat :: "nat \<Rightarrow> string" where
  "str_nat n =
     (if n < 10 then [''0123456789'' ! n]
      else str_nat (n div 10) @ [''0123456789'' ! (n mod 10)])"

declare str_nat.simps [simp del]

definition str_int :: "int \<Rightarrow> string" where
  "str_int i = (if i < 0 then CHR ''-'' # str_nat (nat (- i)) else str_nat (nat i))"

fun startswith :: "string \<Rightarrow> string \<Rightarrow> bool" where
  "startswith s [] = True"
| "startswith [] (p # ps) = False"
| "startswith (c # cs) (p # ps) = (c = p \<and> startswith cs ps)"

text \<open>\<^verbatim>\<open>sub in s\<close>, which is also \<^verbatim>\<open>s.find(sub) != -1\<close>.\<close>

fun in_str :: "string \<Rightarrow> string \<Rightarrow> bool" where
  "in_str sub [] = (sub = [])"
| "in_str sub (c # cs) = (startswith (c # cs) sub \<or> in_str sub cs)"

definition linebreak :: "char \<Rightarrow> bool" where
  "linebreak c \<longleftrightarrow> c \<in> set [CHR 0x0A, CHR 0x0B, CHR 0x0C, CHR 0x0D, CHR 0x1C, CHR 0x1D, CHR 0x1E]"

definition isspace :: "char \<Rightarrow> bool" where
  "isspace c \<longleftrightarrow>
     c \<in> set [CHR 0x20, CHR 0x09, CHR 0x0A, CHR 0x0B, CHR 0x0C, CHR 0x0D, CHR 0x1C, CHR 0x1D, CHR 0x1E, CHR 0x1F]"

fun splitlines_from :: "string \<Rightarrow> string \<Rightarrow> string list" where
  "splitlines_from line [] = (if line = [] then [] else [line])"
| "splitlines_from line [c] = (if linebreak c then [line] else [line @ [c]])"
| "splitlines_from line (c # d # cs) =
     (if c = CHR 0x0D \<and> d = CHR 0x0A then line # splitlines_from [] cs
      else if linebreak c then line # splitlines_from [] (d # cs)
      else splitlines_from (line @ [c]) (d # cs))"

definition splitlines :: "string \<Rightarrow> string list" where
  "splitlines s = splitlines_from [] s"

fun split_from :: "string \<Rightarrow> string \<Rightarrow> string list" where
  "split_from word [] = (if word = [] then [] else [word])"
| "split_from word (c # cs) =
     (if isspace c then (if word = [] then split_from [] cs else word # split_from [] cs)
      else split_from (word @ [c]) cs)"

definition split :: "string \<Rightarrow> string list" where
  "split s = split_from [] s"

text \<open>\<^verbatim>\<open>os.path.basename\<close> and \<^verbatim>\<open>os.path.join\<close> of posixpath.\<close>

definition basename :: "string \<Rightarrow> string" where
  "basename p = rev (takeWhile (\<lambda>c. c \<noteq> CHR ''/'') (rev p))"

fun path_join :: "string \<Rightarrow> string list \<Rightarrow> string" where
  "path_join a [] = a"
| "path_join a (b # bs) =
     path_join (if startswith b ''/'' then b
                else if a = [] \<or> last a = CHR ''/'' then a @ b
                else a @ ''/'' @ b) bs"

text \<open>\<^verbatim>\<open>xs.index(x)\<close>: the first position of \<open>x\<close>, \<^verbatim>\<open>ValueError\<close> (here \<open>None\<close>) without one.\<close>

fun list_index :: "'a list \<Rightarrow> 'a \<Rightarrow> nat option" where
  "list_index [] x = None"
| "list_index (y # ys) x = (if y = x then Some 0 else map_option Suc (list_index ys x))"

text \<open>\<^verbatim>\<open>int(x)\<close> of a float: truncation towards zero.\<close>

definition int_of_float :: "rat \<Rightarrow> int" where
  "int_of_float x = (if 0 \<le> x then \<lfloor>x\<rfloor> else \<lceil>x\<rceil>)"

text \<open>Python's \<^verbatim>\<open>round\<close> with one argument: to the nearest integer, a tie to the even one.\<close>

definition py_round :: "rat \<Rightarrow> int" where
  "py_round x =
     (let f = \<lfloor>x\<rfloor>; d = x - of_int f
      in if d < 1 / 2 then f
         else if 1 / 2 < d then f + 1
         else if even f then f else f + 1)"

text \<open>
  Rounding to binary64. \<open>pow2 k\<close> is \<open>2 ^ k\<close> for an integer \<open>k\<close>, \<open>ilog2 x\<close> the
  binary exponent of a positive \<open>x\<close>, and \<open>fl_exp x\<close> the exponent of the last place
  of the binary64 numbers around \<open>x\<close>: 53 significant bits, and never below \<open>- 1074\<close>.
  \<open>fl x\<close> is \<open>x\<close> rounded to a multiple of that place. \<open>is_double x\<close> says that \<open>x\<close>
  is a binary64 number.
\<close>

definition pow2 :: "int \<Rightarrow> rat" where
  "pow2 k = (if 0 \<le> k then of_int (2 ^ nat k) else 1 / of_int (2 ^ nat (- k)))"

definition ilog2 :: "rat \<Rightarrow> int" where
  "ilog2 x = (if 1 \<le> x then bitlen \<lfloor>x\<rfloor> - 1 else - bitlen (\<lceil>1 / x\<rceil> - 1))"

definition fl_exp :: "rat \<Rightarrow> int" where
  "fl_exp x = (if \<bar>x\<bar> < pow2 (- 1022) then - 1074 else ilog2 \<bar>x\<bar> - 52)"

definition fl :: "rat \<Rightarrow> rat" where
  "fl x = (if x = 0 then 0 else of_int (py_round (x / pow2 (fl_exp x))) * pow2 (fl_exp x))"

definition is_double :: "rat \<Rightarrow> bool" where
  "is_double x \<longleftrightarrow> fl x = x"

subsection \<open>class Ipmi\<close>

definition CPU_ZONE :: int where "CPU_ZONE = 0"
definition HD_ZONE :: int where "HD_ZONE = 1"

record ipmi =
  command :: string
  fan_mode_delay :: int
  fan_level_delay :: int

definition Ipmi_set_fan_level :: "env \<Rightarrow> ipmi \<Rightarrow> int \<Rightarrow> int \<Rightarrow> unit outcome \<times> event list" where
  "Ipmi_set_fan_level e ip zone level =
     (if zone \<noteq> CPU_ZONE \<and> zone \<noteq> HD_ZONE then (Raise (ValueError ''Invalid value: zone''), [])
      else if \<not> (0 \<le> level \<and> level < 101) then (Raise (ValueError ''Invalid value: level''), [])
      else
        let argv = [command ip, ''raw'', ''0x30'', ''0x70'', ''0x66'', ''0x01'', str_int zone, str_int level]
        in case subprocess_run e argv of
             Inl err \<Rightarrow> (Raise err, [Run argv])
           | Inr _ \<Rightarrow> (Return (), [Run argv, Sleep (of_int (fan_level_delay ip))]))"

subsection \<open>class FanController\<close>

definition CALC_MIN :: int where "CALC_MIN = 0"
definition CALC_AVG :: int where "CALC_AVG = 1"
definition CALC_MAX :: int where "CALC_MAX = 2"

text \<open>The function stored in \<^verbatim>\<open>get_temp_func\<close>.\<close>

datatype temp_func = Get_1_temp | Get_min_temp | Get_avg_temp | Get_max_temp

record fan_controller =
  log_ref :: log
  ipmi_ref :: ipmi
  ipmi_zone :: int
  name :: string
  count :: int
  temp_calc :: int
  steps :: int
  sensitivity :: rat
  polling :: rat
  min_temp :: rat
  max_temp :: rat
  min_level :: int
  max_level :: int
  hwmon_path :: "string list"
  temp_step :: rat
  level_step :: rat
  last_time :: rat
  last_temp :: rat
  last_level :: int
  get_temp_func :: temp_func

subsubsection \<open>Reading the temperature\<close>

definition get_1_temp :: "env \<Rightarrow> 'a fan_controller_scheme \<Rightarrow> py_error + rat" where
  "get_1_temp e self =
     (case hwmon_path self of
        [] \<Rightarrow> Inl IndexError
      | p # _ \<Rightarrow> (case read_float e p of Inl err \<Rightarrow> Inl err | Inr raw \<Rightarrow> Inr (fl (raw / 1000))))"

fun min_loop :: "env \<Rightarrow> string list \<Rightarrow> rat \<Rightarrow> py_error + rat" where
  "min_loop e [] minimum = Inr minimum"
| "min_loop e (i # rest) minimum =
     (case read_float e i of
        Inl err \<Rightarrow> Inl err
      | Inr raw \<Rightarrow>
          let v = fl (raw / 1000)
          in min_loop e rest (if v < minimum then v else minimum))"

definition get_min_temp :: "env \<Rightarrow> 'a fan_controller_scheme \<Rightarrow> py_error + rat" where
  "get_min_temp e self = min_loop e (hwmon_path self) 1000"

fun avg_loop :: "env \<Rightarrow> string list \<Rightarrow> rat \<Rightarrow> int \<Rightarrow> py_error + rat \<times> int" where
  "avg_loop e [] average counter = Inr (average, counter)"
| "avg_loop e (i # rest) average counter =
     (case read_float e i of
        Inl err \<Rightarrow> Inl err
      | Inr raw \<Rightarrow> avg_loop e rest (fl (average + fl (raw / 1000))) (counter + 1))"

definition get_avg_temp :: "env \<Rightarrow> 'a fan_controller_scheme \<Rightarrow> py_error + rat" where
  "get_avg_temp e self =
     (case avg_loop e (hwmon_path self) 0 0 of
        Inl err \<Rightarrow> Inl err
      | Inr (average, counter) \<Rightarrow>
          if counter = 0 then Inl ZeroDivisionError else Inr (fl (average / fl (of_int counter))))"

fun max_loop :: "env \<Rightarrow> string list \<Rightarrow> rat \<Rightarrow> py_error + rat" where
  "max_loop e [] maximum = Inr maximum"
| "max_loop e (i # rest) maximum =
     (case read_float e i of
        Inl err \<Rightarrow> Inl err
      | Inr raw \<Rightarrow>
          let v = fl (raw / 1000)
          in max_loop e rest (if v > maximum then v else maximum))"

definition get_max_temp :: "env \<Rightarrow> 'a fan_controller_scheme \<Rightarrow> py_error + rat" where
  "get_max_temp e self = max_loop e (hwmon_path self) (- 1)"

definition call_get_temp_func :: "env \<Rightarrow> 'a fan_controller_scheme \<Rightarrow> py_error + rat" where
  "call_get_temp_func e self =
     (case get_temp_func self of
        Get_1_temp \<Rightarrow> get_1_temp e self
      | Get_min_temp \<Rightarrow> get_min_temp e self
      | Get_avg_temp \<Rightarrow> get_avg_temp e self
      | Get_max_temp \<Rightarrow> get_max_temp e self)"

definition set_fan_level :: "env \<Rightarrow> 'a fan_controller_scheme \<Rightarrow> int \<Rightarrow> unit outcome \<times> event list" where
  "set_fan_level e self level = Ipmi_set_fan_level e (ipmi_ref self) (ipmi_zone self) level"

subsubsection \<open>One tick: \<^verbatim>\<open>FanController.run\<close>\<close>

text \<open>
  Step 3 of \<^verbatim>\<open>run\<close>: the gain (step number) and the fan level for a temperature. The
  division by \<^verbatim>\<open>temp_step\<close> raises when that field is zero.
\<close>

definition gain_level :: "'a fan_controller_scheme \<Rightarrow> rat \<Rightarrow> py_error + int \<times> int" where
  "gain_level self current_temp =
     (if current_temp \<le> min_temp self then Inr (0, min_level self)
      else if current_temp \<ge> max_temp self then Inr (steps self, max_level self)
      else if temp_step self = 0 then Inl ZeroDivisionError
      else
        let current_gain = py_round (fl (fl (current_temp - min_temp self) / temp_step self));
            current_level = py_round (fl (fl (of_int current_gain) * level_step self)) + min_level self
        in Inr (current_gain, current_level))"

text \<open>The two messages of \<^verbatim>\<open>run\<close>.\<close>

definition msg_new_temperature :: "'a fan_controller_scheme \<Rightarrow> rat \<Rightarrow> event" where
  "msg_new_temperature self current_temp =
     LogMsg LOG_DEBUG (Fmt ''{}: new temperature > {:.1f}C'' [S (name self), R current_temp])"

definition msg_new_level :: "'a fan_controller_scheme \<Rightarrow> rat \<Rightarrow> int \<Rightarrow> int \<Rightarrow> event" where
  "msg_new_level self current_temp current_gain current_level =
     LogMsg LOG_INFO
       (Fmt ''{}: new level > {:.1f}C > [T:{}C/L:{}%]''
          [S (name self), R current_temp,
           R (fl (min_temp self + fl (fl (of_int current_gain) * temp_step self))), I current_level])"

text \<open>
  \<open>cb\<close> is the method \<^verbatim>\<open>callback_func\<close> of the object's class. The object returned with
  \<open>Raise\<close> carries the assignments made before the exception.
\<close>

definition run ::
  "(env \<Rightarrow> 'a fan_controller_scheme \<Rightarrow> unit outcome \<times> 'a fan_controller_scheme \<times> event list) \<Rightarrow>
   env \<Rightarrow> 'a fan_controller_scheme \<Rightarrow> unit outcome \<times> 'a fan_controller_scheme \<times> event list" where
  "run cb e self =
     (let current_time = time_fc e
      in if fl (current_time - last_time self) < polling self then (Return (), self, [])
         else
           let self1 = self\<lparr>last_time := current_time\<rparr>
           in case cb e self1 of
                (Raise err, self2, ev1) \<Rightarrow> (Raise err, self2, ev1)
              | (Return _, self2, ev1) \<Rightarrow>
                  (case call_get_temp_func e self2 of
                     Inl err \<Rightarrow> (Raise err, self2, ev1)
                   | Inr current_temp \<Rightarrow>
                       let ev2 = ev1 @ [msg_new_temperature self2 current_temp]
                       in if \<bar>fl (current_temp - last_temp self2)\<bar> < sensitivity self2
                          then (Return (), self2, ev2)
                          else
                            let self3 = self2\<lparr>last_temp := current_temp\<rparr>
                            in case gain_level self3 current_temp of
                                 Inl err \<Rightarrow> (Raise err, self3, ev2)
                               | Inr (current_gain, current_level) \<Rightarrow>
                                   if current_level \<noteq> last_level self3 then
                                     let self4 = self3\<lparr>last_level := current_level\<rparr>
                                     in (case set_fan_level e self4 current_level of
                                           (Raise err, ev3) \<Rightarrow> (Raise err, self4, ev2 @ ev3)
                                         | (Return _, ev3) \<Rightarrow>
                                             (Return (), self4, ev2 @ ev3 @
                                                [msg_new_level self4 current_temp current_gain current_level]))
                                   else (Return (), self3, ev2)))"

text \<open>\<^verbatim>\<open>FanController.callback_func\<close>: the empty method of the base class.\<close>

definition callback_func :: "env \<Rightarrow> 'a fan_controller_scheme \<Rightarrow> unit outcome \<times> 'a fan_controller_scheme \<times> event list" where
  "callback_func e self = (Return (), self, [])"

subsubsection \<open>Construction\<close>

text \<open>
  The base method \<^verbatim>\<open>build_hwmon_path\<close>. After the length check the list has \<^verbatim>\<open>count\<close>
  elements, so the loop over \<^verbatim>\<open>range(self.count)\<close> visits each element once.
\<close>

fun resolve_paths :: "env \<Rightarrow> string list \<Rightarrow> py_error + string list" where
  "resolve_paths e [] = Inr []"
| "resolve_paths e (p # ps) =
     (case (if CHR ''?'' \<in> set p \<or> CHR ''*'' \<in> set p
            then (case glob_glob e p of
                    [] \<Rightarrow> Inl (ValueError ''Cannot read file'')
                  | f # _ \<Rightarrow> Inr f)
            else Inr p) of
        Inl err \<Rightarrow> Inl err
      | Inr q \<Rightarrow>
          if \<not> isfile e q then Inl (ValueError ''Cannot read file'')
          else (case resolve_paths e ps of Inl err \<Rightarrow> Inl err | Inr qs \<Rightarrow> Inr (q # qs)))"

text \<open>
  A configuration value that lists paths: split at the line boundaries when it holds a
  newline, at white space otherwise (\<^verbatim>\<open>hwmon_path=\<close> and \<^verbatim>\<open>hd_names=\<close>).
\<close>

definition parse_paths :: "string \<Rightarrow> string list" where
  "parse_paths str = (if CHR 0x0A \<in> set str then splitlines str else split str)"

definition build_hwmon_path :: "env \<Rightarrow> 'a fan_controller_scheme \<Rightarrow> string \<Rightarrow> py_error + 'a fan_controller_scheme" where
  "build_hwmon_path e self hwmon_str =
     (if hwmon_str \<noteq> [] then
        let paths = parse_paths hwmon_str
        in if int (length paths) \<noteq> count self
           then Inl (ValueError ''Inconsistent count and size of hwmon_path'')
           else (case resolve_paths e paths of
                   Inl err \<Rightarrow> Inl err
                 | Inr ps \<Rightarrow> Inr (self\<lparr>hwmon_path := ps\<rparr>))
      else Inr self)"

text \<open>The lines of \<^verbatim>\<open>print_temp_level_mapping\<close>.\<close>

definition print_temp_level_mapping :: "'a fan_controller_scheme \<Rightarrow> event list" where
  "print_temp_level_mapping self =
     LogMsg LOG_DEBUG (Fmt ''   Temperature:level mapping:'' []) #
     map (\<lambda>i. LogMsg LOG_DEBUG
                 (Fmt ''   {}. [T:{:.1f}C - L:{}%]''
                    [I (int i), R (fl (min_temp self + fl (fl (of_nat i) * temp_step self))),
                     I (int_of_float (fl (fl (of_int (min_level self)) + fl (fl (of_nat i) * level_step self))))]))
         [0..<nat (steps self + 1)]"

text \<open>
  \<^verbatim>\<open>FanController.__init__\<close>. \<open>build\<close> is the method \<^verbatim>\<open>build_hwmon_path\<close> of the object's
  class, \<open>self0\<close> the object as the subclass constructor hands it over. A constructor that
  raises gives no object.
\<close>

definition FanController_init ::
  "(env \<Rightarrow> 'a fan_controller_scheme \<Rightarrow> string \<Rightarrow> py_error + 'a fan_controller_scheme) \<Rightarrow>
   env \<Rightarrow> 'a fan_controller_scheme \<Rightarrow> log \<Rightarrow> ipmi \<Rightarrow> int \<Rightarrow> string \<Rightarrow> int \<Rightarrow> int \<Rightarrow> int \<Rightarrow>
   rat \<Rightarrow> rat \<Rightarrow> rat \<Rightarrow> rat \<Rightarrow> int \<Rightarrow> int \<Rightarrow> string \<Rightarrow>
   'a fan_controller_scheme outcome \<times> event list" where
  "FanController_init build e self0 lg ip zone nm cnt tc st sens poll mint maxt minl maxl hwmon_str =
     (if zone \<noteq> CPU_ZONE \<and> zone \<noteq> HD_ZONE then (Raise (ValueError ''invalid value: ipmi_zone''), [])
      else if cnt \<le> 0 then (Raise (ValueError ''count <= 0''), [])
      else if tc \<noteq> CALC_MIN \<and> tc \<noteq> CALC_AVG \<and> tc \<noteq> CALC_MAX
        then (Raise (ValueError ''invalid value: temp_calc''), [])
      else if st \<le> 0 then (Raise (ValueError ''steps <= 0''), [])
      else if sens \<le> 0 then (Raise (ValueError ''sensitivity <= 0''), [])
      else if poll < 0 then (Raise (ValueError ''polling < 0''), [])
      else if maxt < mint then (Raise (ValueError ''max_temp < min_temp''), [])
      else if maxl < minl then (Raise (ValueError ''max_level < min_level''), [])
      else
        let self1 = self0\<lparr>log_ref := lg, ipmi_ref := ip, ipmi_zone := zone, name := nm, count := cnt,
                       temp_calc := tc, steps := st, sensitivity := sens, polling := poll,
                       min_temp := mint, max_temp := maxt, min_level := minl, max_level := maxl,
                       get_temp_func :=
                         (if cnt = 1 then Get_1_temp
                          else if tc = CALC_MIN then Get_min_temp
                          else if tc = CALC_MAX then Get_max_temp
                          else Get_avg_temp)\<rparr>
        in case build e self1 hwmon_str of
             Inl err \<Rightarrow> (Raise err, [])
           | Inr self2 \<Rightarrow>
               (case (if hwmon_str \<noteq> [] then call_get_temp_func e self2 else Inr 0) of
                  Inl err \<Rightarrow> (Raise err, [])
                | Inr _ \<Rightarrow>
                    let self3 = self2\<lparr>temp_step := fl (fl (maxt - mint) / fl (of_int st)),
                                     level_step := fl (of_int (maxl - minl) / of_int st),
                                     last_temp := 0, last_level := 0,
                                     last_time := fl (time_fc e - fl (poll + 1))\<rparr>
                    in (Return self3,
                        if log_level lg \<ge> LOG_DEBUG then
                          [LogMsg LOG_DEBUG (Fmt ''{} fan controller was initialized with:'' [S nm]),
                           LogMsg LOG_DEBUG (Fmt ''   IPMI zone = {}'' [I zone]),
                           LogMsg LOG_DEBUG (Fmt ''   count = {}'' [I cnt]),
                           LogMsg LOG_DEBUG (Fmt ''   temp_calc = {}'' [I tc]),
                           LogMsg LOG_DEBUG (Fmt ''   steps = {}'' [I st]),
                           LogMsg LOG_DEBUG (Fmt ''   sensitivity = {}'' [R sens]),
                           LogMsg LOG_DEBUG (Fmt ''   polling = {}'' [R poll]),
                           LogMsg LOG_DEBUG (Fmt ''   min_temp = {}'' [R mint]),
                           LogMsg LOG_DEBUG (Fmt ''   max_temp = {}'' [R maxt]),
                           LogMsg LOG_DEBUG (Fmt ''   min_level = {}'' [I minl]),
                           LogMsg LOG_DEBUG (Fmt ''   max_level = {}'' [I maxl]),
                           LogMsg LOG_DEBUG (Fmt ''   hwmon_path = {}'' [L (hwmon_path self3)])]
                          @ print_temp_level_mapping self3
                        else [])))"

text \<open>
  An object before its attributes are assigned: every field holds a default, and \<open>ext\<close>
  holds the attributes of the subclass.
\<close>

definition new_object :: "'a \<Rightarrow> 'a fan_controller_scheme" where
  "new_object ext =
     \<lparr>log_ref = \<lparr>log_level = 0, log_output = 0\<rparr>,
      ipmi_ref = \<lparr>command = [], fan_mode_delay = 0, fan_level_delay = 0\<rparr>,
      ipmi_zone = 0, name = [], count = 0, temp_calc = 0, steps = 0, sensitivity = 0, polling = 0,
      min_temp = 0, max_temp = 0, min_level = 0, max_level = 0, hwmon_path = [],
      temp_step = 0, level_step = 0, last_time = 0, last_temp = 0, last_level = 0,
      get_temp_func = Get_1_temp, \<dots> = ext\<rparr>"

text \<open>
  A section of the configuration file after \<^verbatim>\<open>getint\<close>, \<^verbatim>\<open>getfloat\<close>, \<^verbatim>\<open>getboolean\<close> and
  \<^verbatim>\<open>get\<close>: \<open>None\<close> is a key that the section does not have.
\<close>

record zone_config =
  cfg_count :: "int option"
  cfg_temp_calc :: "int option"
  cfg_steps :: "int option"
  cfg_sensitivity :: "rat option"
  cfg_polling :: "rat option"
  cfg_min_temp :: "rat option"
  cfg_max_temp :: "rat option"
  cfg_min_level :: "int option"
  cfg_max_level :: "int option"
  cfg_hwmon_path :: "string option"
  cfg_hd_names :: "string option"
  cfg_standby_guard_enabled :: "bool option"
  cfg_standby_hd_limit :: "int option"
  cfg_smartctl_path :: "string option"

definition fallback :: "'a \<Rightarrow> 'a option \<Rightarrow> 'a" where
  "fallback d v = (case v of None \<Rightarrow> d | Some x \<Rightarrow> x)"

subsection \<open>class CpuZone\<close>

fun cpu_auto_paths :: "env \<Rightarrow> nat list \<Rightarrow> string list \<Rightarrow> py_error + string list" where
  "cpu_auto_paths e [] paths = Inr paths"
| "cpu_auto_paths e (i # rest) paths =
     (let path = ''/sys/devices/platform/coretemp.'' @ str_int (int i) @ ''/hwmon/hwmon*/temp1_input''
      in case glob_glob e path of
           [] \<Rightarrow> Inl (ValueError ''Cannot read file'')
         | f # _ \<Rightarrow>
             if length paths \<le> i then Inl IndexError
             else cpu_auto_paths e rest (paths[i := f]))"

definition CpuZone_build_hwmon_path :: "env \<Rightarrow> 'a fan_controller_scheme \<Rightarrow> string \<Rightarrow> py_error + 'a fan_controller_scheme" where
  "CpuZone_build_hwmon_path e self hwmon_str =
     (if hwmon_str \<noteq> [] then build_hwmon_path e self hwmon_str
      else (case cpu_auto_paths e [0..<nat (count self)] (hwmon_path self) of
              Inl err \<Rightarrow> Inl err
            | Inr ps \<Rightarrow> Inr (self\<lparr>hwmon_path := ps\<rparr>)))"

definition CpuZone_init :: "env \<Rightarrow> log \<Rightarrow> ipmi \<Rightarrow> zone_config \<Rightarrow> fan_controller outcome \<times> event list" where
  "CpuZone_init e lg ip config =
     (let cnt = fallback 1 (cfg_count config)
      in if cnt \<le> 0 then (Raise (ValueError ''count <= 0''), [])
         else
           FanController_init CpuZone_build_hwmon_path e
             ((new_object ())\<lparr>hwmon_path := replicate (nat cnt) []\<rparr>)
             lg ip CPU_ZONE ''CPU zone'' cnt
             (fallback CALC_AVG (cfg_temp_calc config))
             (fallback 6 (cfg_steps config))
             (fallback 3 (cfg_sensitivity config))
             (fallback 2 (cfg_polling config))
             (fallback 30 (cfg_min_temp config))
             (fallback 60 (cfg_max_temp config))
             (fallback 35 (cfg_min_level config))
             (fallback 100 (cfg_max_level config))
             (fallback [] (cfg_hwmon_path config)))"

subsection \<open>class HdZone\<close>

record hd_zone = fan_controller +
  hd_device_names :: "string list"
  standby_guard_enabled :: bool
  standby_hd_limit :: int
  smartctl_path :: string
  standby_flag :: bool
  standby_change_timestamp :: rat
  standby_array_states :: "bool list"

subsubsection \<open>The hwmon files of the disks\<close>

fun hd_sata_loop :: "env \<Rightarrow> string list \<Rightarrow> nat list \<Rightarrow> string list \<Rightarrow> py_error + string list" where
  "hd_sata_loop e names [] hd_sata_names = Inr hd_sata_names"
| "hd_sata_loop e names (i # rest) hd_sata_names =
     (if length names \<le> i then Inl IndexError
      else if \<not> in_str ''by-id'' (names ! i)
        then Inl (ValueError ''Invalid hd_names, name is not in /dev/disk/by-id form.'')
      else if \<not> islink e (names ! i)
        then Inl (ValueError ''Invalid hd_names, the reference is not link.'')
      else (case readlink e (names ! i) of
              Inl err \<Rightarrow> Inl err
            | Inr target \<Rightarrow>
                if length hd_sata_names \<le> i then Inl IndexError
                else hd_sata_loop e names rest (hd_sata_names[i := basename target])))"

fun hd_hwmon_loop :: "env \<Rightarrow> string list \<Rightarrow> string list \<Rightarrow> string list \<Rightarrow> py_error + string list" where
  "hd_hwmon_loop e hd_sata_names [] paths = Inr paths"
| "hd_hwmon_loop e hd_sata_names (f # rest) paths =
     (case glob_glob e (path_join ''/sys/class/scsi_disk'' [f, ''device/block/sd*'']) of
        [] \<Rightarrow> Inl (ValueError ''Cannot read file'')
      | g # _ \<Rightarrow>
          (case list_index hd_sata_names (basename g) of
             None \<Rightarrow> hd_hwmon_loop e hd_sata_names rest paths
           | Some index \<Rightarrow>
               (case glob_glob e (path_join ''/sys/class/scsi_disk'' [f, ''device/hwmon/hwmon*/temp1_input'']) of
                  [] \<Rightarrow> Inl (ValueError ''Cannot read file'')
                | h # _ \<Rightarrow>
                    if length paths \<le> index then Inl IndexError
                    else hd_hwmon_loop e hd_sata_names rest (paths[index := h]))))"

definition HdZone_build_hwmon_path :: "env \<Rightarrow> 'a hd_zone_scheme \<Rightarrow> string \<Rightarrow> py_error + 'a hd_zone_scheme" where
  "HdZone_build_hwmon_path e self hwmon_str =
     (if hwmon_str \<noteq> [] then build_hwmon_path e self hwmon_str
      else
        (case hd_sata_loop e (hd_device_names self) [0..<nat (count self)]
                (replicate (nat (count self)) []) of
           Inl err \<Rightarrow> Inl err
         | Inr hd_sata_names \<Rightarrow>
             (case listdir e ''/sys/class/scsi_disk'' of
                Inl err \<Rightarrow> Inl err
              | Inr entries \<Rightarrow>
                  (case hd_hwmon_loop e hd_sata_names entries (hwmon_path self) of
                     Inl err \<Rightarrow> Inl err
                   | Inr ps \<Rightarrow>
                       if int (length ps) \<noteq> count self
                       then Inl (ValueError ''Invalid hd_names= parameter, not all hwmon files was found'')
                       else Inr (self\<lparr>hwmon_path := ps\<rparr>)))))"

subsubsection \<open>The standby guard\<close>

fun standby_state_str_loop :: "bool list \<Rightarrow> nat list \<Rightarrow> py_error + string" where
  "standby_state_str_loop states [] = Inr []"
| "standby_state_str_loop states (i # rest) =
     (if length states \<le> i then Inl IndexError
      else (case standby_state_str_loop states rest of
              Inl err \<Rightarrow> Inl err
            | Inr r \<Rightarrow> Inr ((if states ! i then CHR ''S'' else CHR ''A'') # r)))"

definition get_standby_state_str :: "'a hd_zone_scheme \<Rightarrow> py_error + string" where
  "get_standby_state_str self = standby_state_str_loop (standby_array_states self) [0..<nat (count self)]"

fun check_standby_loop :: "env \<Rightarrow> nat list \<Rightarrow> 'a hd_zone_scheme \<Rightarrow> unit outcome \<times> 'a hd_zone_scheme \<times> event list" where
  "check_standby_loop e [] self = (Return (), self, [])"
| "check_standby_loop e (i # rest) self =
     (if length (standby_array_states self) \<le> i then (Raise IndexError, self, [])
      else
        let self1 = self\<lparr>standby_array_states := (standby_array_states self)[i := False]\<rparr>
        in if length (hd_device_names self1) \<le> i then (Raise IndexError, self1, [])
           else
             let argv = [smartctl_path self1, ''-i'', ''-n'', ''standby'', hd_device_names self1 ! i]
             in case subprocess_run e argv of
                  Inl err \<Rightarrow> (Raise err, self1, [Run argv])
                | Inr (returncode, stdout) \<Rightarrow>
                    if returncode \<noteq> 0 \<and> returncode \<noteq> 2
                    then (Raise (Exception ''Unknown smartctl return value''), self1, [Run argv])
                    else
                      let self2 = (if in_str ''STANDBY'' stdout
                                   then self1\<lparr>standby_array_states := (standby_array_states self1)[i := True]\<rparr>
                                   else self1)
                      in case check_standby_loop e rest self2 of
                           (r, self3, ev) \<Rightarrow> (r, self3, Run argv # ev))"

definition check_standby_state :: "env \<Rightarrow> 'a hd_zone_scheme \<Rightarrow> int outcome \<times> 'a hd_zone_scheme \<times> event list" where
  "check_standby_state e self =
     (case check_standby_loop e [0..<nat (count self)] self of
        (Raise err, self1, ev) \<Rightarrow> (Raise err, self1, ev)
      | (Return _, self1, ev) \<Rightarrow>
          (Return (int (count_list (standby_array_states self1) True)), self1, ev))"

fun go_standby_loop :: "env \<Rightarrow> nat list \<Rightarrow> 'a hd_zone_scheme \<Rightarrow> unit outcome \<times> 'a hd_zone_scheme \<times> event list" where
  "go_standby_loop e [] self = (Return (), self, [])"
| "go_standby_loop e (i # rest) self =
     (if length (standby_array_states self) \<le> i then (Raise IndexError, self, [])
      else if \<not> standby_array_states self ! i then
        (if length (hd_device_names self) \<le> i then (Raise IndexError, self, [])
         else
           let argv = [smartctl_path self, ''-s'', ''standby,now'', hd_device_names self ! i]
           in case subprocess_run e argv of
                Inl err \<Rightarrow> (Raise err, self, [Run argv])
              | Inr (returncode, stdout) \<Rightarrow>
                  if returncode \<noteq> 0
                  then (Raise (Exception ''Unknown smartctl return value''), self, [Run argv])
                  else
                    (case go_standby_loop e rest
                            (self\<lparr>standby_array_states := (standby_array_states self)[i := True]\<rparr>) of
                       (r, self1, ev) \<Rightarrow> (r, self1, Run argv # ev)))
      else go_standby_loop e rest self)"

definition go_standby_state :: "env \<Rightarrow> 'a hd_zone_scheme \<Rightarrow> unit outcome \<times> 'a hd_zone_scheme \<times> event list" where
  "go_standby_state e self = go_standby_loop e [0..<nat (count self)] self"

definition run_standby_guard :: "env \<Rightarrow> 'a hd_zone_scheme \<Rightarrow> unit outcome \<times> 'a hd_zone_scheme \<times> event list" where
  "run_standby_guard e self =
     (case check_standby_state e self of
        (Raise err, self1, ev1) \<Rightarrow> (Raise err, self1, ev1)
      | (Return hds_in_standby, self1, ev1) \<Rightarrow>
          let cur_time = time_hd e
          in if \<not> standby_flag self1 \<and> hds_in_standby \<ge> standby_hd_limit self1 then
               (case get_standby_state_str self1 of
                  Inl err \<Rightarrow> (Raise err, self1, ev1)
                | Inr str \<Rightarrow>
                    let ev2 = ev1 @ [LogMsg LOG_INFO
                                (Fmt ''Standby guard: Change ACTIVE to STANDBY after {:.1f} hour(s)[{}]''
                                   [R (fl (fl (cur_time - standby_change_timestamp self1) / 3600)), S str])]
                    in (case go_standby_state e self1 of
                          (Raise err, self2, ev3) \<Rightarrow> (Raise err, self2, ev2 @ ev3)
                        | (Return _, self2, ev3) \<Rightarrow>
                            (Return (),
                             self2\<lparr>standby_flag := True, standby_change_timestamp := cur_time\<rparr>,
                             ev2 @ ev3)))
             else if standby_flag self1 \<and> hds_in_standby < count self1 then
               (case get_standby_state_str self1 of
                  Inl err \<Rightarrow> (Raise err, self1, ev1)
                | Inr str \<Rightarrow>
                    (Return (),
                     self1\<lparr>standby_flag := False, standby_change_timestamp := cur_time\<rparr>,
                     ev1 @ [LogMsg LOG_INFO
                              (Fmt ''Standby guard: Change STANDBY to ACTIVE after {:.1f} hour(s)[{}]''
                                 [R (fl (fl (cur_time - standby_change_timestamp self1) / 3600)), S str])]))
             else (Return (), self1, ev1))"

text \<open>\<^verbatim>\<open>HdZone.callback_func\<close>, which overrides the empty method of the base class.\<close>

definition HdZone_callback_func :: "env \<Rightarrow> 'a hd_zone_scheme \<Rightarrow> unit outcome \<times> 'a hd_zone_scheme \<times> event list" where
  "HdZone_callback_func e self =
     (if standby_guard_enabled self then run_standby_guard e self else (Return (), self, []))"

subsubsection \<open>Construction\<close>

definition msg_guard_disabled :: event where
  "msg_guard_disabled = LogMsg LOG_INFO (Fmt ''Standby guard is disabled << [HD zone] count=1'' [])"

definition HdZone_debug_lines :: "log \<Rightarrow> 'a hd_zone_scheme \<Rightarrow> event list" where
  "HdZone_debug_lines lg self =
     (if log_level lg \<ge> LOG_DEBUG then
        LogMsg LOG_DEBUG (Fmt ''   hd_names = {}'' [L (hd_device_names self)]) #
        (if standby_guard_enabled self then
           [LogMsg LOG_DEBUG (Fmt ''   Standby guard is enabled:'' []),
            LogMsg LOG_DEBUG (Fmt ''   standby_hd_limit = {}'' [I (standby_hd_limit self)]),
            LogMsg LOG_DEBUG (Fmt ''   smartctl_path = {}'' [S (smartctl_path self)])]
         else [LogMsg LOG_DEBUG (Fmt ''   Standby guard is disabled'' [])])
      else [])"

definition HdZone_init :: "env \<Rightarrow> log \<Rightarrow> ipmi \<Rightarrow> zone_config \<Rightarrow> hd_zone outcome \<times> event list" where
  "HdZone_init e lg ip config =
     (let cnt = fallback 1 (cfg_count config)
      in if cnt \<le> 0 then (Raise (ValueError ''count <= 0''), [])
         else
           let hd_names = fallback [] (cfg_hd_names config)
           in if hd_names = [] then (Raise (ValueError ''Parameter hd_names= is not specified.''), [])
              else
                let names = parse_paths hd_names
                in if int (length names) \<noteq> cnt
                   then (Raise (ValueError ''Inconsistent count and size of hd_names''), [])
                   else
                     (case FanController_init HdZone_build_hwmon_path e
                             ((new_object (hd_zone.fields names False 0 [] False 0 []))
                                \<lparr>hwmon_path := replicate (nat cnt) []\<rparr>)
                             lg ip HD_ZONE ''HD zone'' cnt
                             (fallback CALC_AVG (cfg_temp_calc config))
                             (fallback 4 (cfg_steps config))
                             (fallback 2 (cfg_sensitivity config))
                             (fallback 10 (cfg_polling config))
                             (fallback 32 (cfg_min_temp config))
                             (fallback 46 (cfg_max_temp config))
                             (fallback 35 (cfg_min_level config))
                             (fallback 100 (cfg_max_level config))
                             (fallback [] (cfg_hwmon_path config)) of
                        (Raise err, ev0) \<Rightarrow> (Raise err, ev0)
                      | (Return self1, ev0) \<Rightarrow>
                          let ev1 = ev0 @
                                (if count self1 = 1
                                 then [msg_guard_disabled]
                                 else []);
                              self2 = self1\<lparr>standby_guard_enabled :=
                                        (if count self1 = 1 then False
                                         else fallback False (cfg_standby_guard_enabled config))\<rparr>
                          in if standby_guard_enabled self2 then
                               let standby_limit = fallback 1 (cfg_standby_hd_limit config);
                                   self3 = self2\<lparr>standby_array_states := replicate (nat cnt) False,
                                                  standby_hd_limit := standby_limit\<rparr>
                               in if standby_limit < 0
                                  then (Raise (ValueError ''standby_hd_limit < 0''), ev1)
                                  else if standby_limit > count self3
                                  then (Raise (ValueError ''standby_hd_limit > count''), ev1)
                                  else
                                    (case check_standby_state e
                                            (self3\<lparr>smartctl_path :=
                                               fallback ''/usr/sbin/smartctl'' (cfg_smartctl_path config)\<rparr>) of
                                       (Raise err, self4, ev2) \<Rightarrow> (Raise err, ev1 @ ev2)
                                     | (Return n, self4, ev2) \<Rightarrow>
                                         let self5 = self4\<lparr>standby_change_timestamp := time_hd e,
                                                          standby_flag := (n = count self4)\<rparr>
                                         in (Return self5, ev1 @ ev2 @ HdZone_debug_lines lg self5))
                             else (Return self2, ev1 @ HdZone_debug_lines lg self2)))"

subsection \<open>The main loop\<close>

text \<open>
  The sleep time of \<^verbatim>\<open>main\<close>; \<open>None\<close> is \<^verbatim>\<open>sys.exit(8)\<close>. A zone that is not enabled
  is \<open>None\<close>, as \<^verbatim>\<open>my_cpu_zone\<close> and \<^verbatim>\<open>my_hd_zone\<close> are.
\<close>

definition main_wait :: "fan_controller option \<Rightarrow> hd_zone option \<Rightarrow> rat option" where
  "main_wait my_cpu_zone my_hd_zone =
     (case (my_cpu_zone, my_hd_zone) of
        (Some c, Some h) \<Rightarrow> Some (fl (min (polling c) (polling h) / 2))
      | (Some c, None) \<Rightarrow> Some (fl (polling c / 2))
      | (None, Some h) \<Rightarrow> Some (fl (polling h / 2))
      | (None, None) \<Rightarrow> None)"

definition CpuZone_run :: "env \<Rightarrow> fan_controller \<Rightarrow> unit outcome \<times> fan_controller \<times> event list" where
  "CpuZone_run e self = run callback_func e self"

definition HdZone_run :: "env \<Rightarrow> hd_zone \<Rightarrow> unit outcome \<times> hd_zone \<times> event list" where
  "HdZone_run e self = run HdZone_callback_func e self"

text \<open>
  \<^verbatim>\<open>while True\<close> of \<^verbatim>\<open>main\<close>, observed for as many iterations as the list has worlds: one
  world for the tick of the CPU zone and one for the tick of the HD zone. An exception
  leaves the loop and ends the process; \<open>Running\<close> says that the loop goes on after the
  last world.
\<close>

datatype loop_status = Running | Terminated py_error

fun main_loop ::
  "rat \<Rightarrow> (env \<times> env) list \<Rightarrow> fan_controller option \<Rightarrow> hd_zone option \<Rightarrow>
   loop_status \<times> fan_controller option \<times> hd_zone option \<times> event list" where
  "main_loop wait [] my_cpu_zone my_hd_zone = (Running, my_cpu_zone, my_hd_zone, [])"
| "main_loop wait ((e_cpu, e_hd) # rest) my_cpu_zone my_hd_zone =
     (case (case my_cpu_zone of
              None \<Rightarrow> (Return (), None, [])
            | Some c \<Rightarrow> (case CpuZone_run e_cpu c of (r, c1, ev) \<Rightarrow> (r, Some c1, ev))) of
        (Raise err, cpu1, ev1) \<Rightarrow> (Terminated err, cpu1, my_hd_zone, ev1)
      | (Return _, cpu1, ev1) \<Rightarrow>
          (case (case my_hd_zone of
                   None \<Rightarrow> (Return (), None, [])
                 | Some h \<Rightarrow> (case HdZone_run e_hd h of (r, h1, ev) \<Rightarrow> (r, Some h1, ev))) of
             (Raise err, hd1, ev2) \<Rightarrow> (Terminated err, cpu1, hd1, ev1 @ ev2)
           | (Return _, hd1, ev2) \<Rightarrow>
               (case main_loop wait rest cpu1 hd1 of
                  (st, cpu2, hd2, ev3) \<Rightarrow> (st, cpu2, hd2, ev1 @ ev2 @ Sleep wait # ev3))))"

subsection \<open>Configurations\<close>

text \<open>
  What \<^verbatim>\<open>FanController.__init__\<close> checks of the ranges, and the two step widths as it
  stores them (lines 373 and 374, rounded).
\<close>

definition valid_config :: "'a fan_controller_scheme \<Rightarrow> bool" where
  "valid_config self \<longleftrightarrow>
     1 \<le> steps self \<and> min_temp self \<le> max_temp self \<and> min_level self \<le> max_level self \<and>
     temp_step self = fl (fl (max_temp self - min_temp self) / fl (of_int (steps self))) \<and>
     level_step self = fl (of_int (max_level self - min_level self) / of_int (steps self))"

subsection \<open>Example worlds and objects\<close>

text \<open>A section without keys, the log and the IPMI object of the defaults of \<^verbatim>\<open>main\<close>.\<close>

definition no_config :: zone_config where
  "no_config =
     \<lparr>cfg_count = None, cfg_temp_calc = None, cfg_steps = None, cfg_sensitivity = None,
      cfg_polling = None, cfg_min_temp = None, cfg_max_temp = None, cfg_min_level = None,
      cfg_max_level = None, cfg_hwmon_path = None, cfg_hd_names = None,
      cfg_standby_guard_enabled = None, cfg_standby_hd_limit = None, cfg_smartctl_path = None\<rparr>"

definition std_log :: log where
  "std_log = \<lparr>log_level = 1, log_output = 2\<rparr>"

definition std_ipmi :: ipmi where
  "std_ipmi = \<lparr>command = ''/usr/bin/ipmitool'', fan_mode_delay = 10, fan_level_delay = 2\<rparr>"

text \<open>
  A world at time \<open>t\<close> where every path is a regular file, no pattern matches, \<open>rd\<close> reads
  the hwmon files and \<open>sp\<close> answers the commands.
\<close>

definition world ::
  "rat \<Rightarrow> (string \<Rightarrow> py_error + rat) \<Rightarrow> (string list \<Rightarrow> py_error + int \<times> string) \<Rightarrow> env" where
  "world t rd sp =
     \<lparr>time_fc = t, time_hd = t, read_float = rd, subprocess_run = sp,
      glob_glob = (\<lambda>p. []), isfile = (\<lambda>p. True), islink = (\<lambda>p. False),
      readlink = (\<lambda>p. Inl (IOError p)), listdir = (\<lambda>p. Inr [])\<rparr>"

text \<open>
  The CPU zone of the fallback values (6 steps, 30 to 60 C, 35 to 100 percent) with one
  sensor file, built at time 100. Its \<open>level_step\<close> is the binary64 number next to
  \<open>65 / 6\<close>, printed by Python as 10.833333333333334.
\<close>

definition cpu_example :: fan_controller where
  "cpu_example =
     \<lparr>log_ref = std_log, ipmi_ref = std_ipmi, ipmi_zone = 0, name = ''CPU zone'', count = 1,
      temp_calc = 1, steps = 6, sensitivity = 3, polling = 2, min_temp = 30, max_temp = 60,
      min_level = 35, max_level = 100, hwmon_path = [''/t0''],
      temp_step = 5, level_step = 6098624495397547 / 562949953421312, last_time = 97,
      last_temp = 0, last_level = 0, get_temp_func = Get_1_temp\<rparr>"

text \<open>The same zone with \<^verbatim>\<open>max_temp=30\<close>, equal to \<^verbatim>\<open>min_temp\<close>.\<close>

definition flat_example :: fan_controller where
  "flat_example = cpu_example\<lparr>max_temp := 30, temp_step := 0\<rparr>"

text \<open>
  A zone of 5 steps between 0 C and \<open>7 * 2 ^ - 1074\<close> C (\<^verbatim>\<open>max_temp=3.5e-323\<close>): the width
  of a step, seven fifths of the smallest positive binary64 number, is stored as that
  smallest number.
\<close>

definition tiny_example :: fan_controller where
  "tiny_example =
     cpu_example\<lparr>steps := 5, min_temp := 0, max_temp := 7 * pow2 (- 1074),
       temp_step := pow2 (- 1074), level_step := 13\<rparr>"

text \<open>
  A zone with two sensor files and the aggregation \<open>calc\<close>, and hwmon files given by an
  association list (a file that the list does not have cannot be opened).
\<close>

definition pair_example :: "int \<Rightarrow> fan_controller" where
  "pair_example calc =
     cpu_example\<lparr>count := 2, temp_calc := calc, hwmon_path := [''/t0'', ''/t1''],
       get_temp_func := (if calc = CALC_MIN then Get_min_temp
                         else if calc = CALC_MAX then Get_max_temp else Get_avg_temp)\<rparr>"

definition files :: "(string \<times> rat) list \<Rightarrow> string \<Rightarrow> py_error + rat" where
  "files fs p = (case map_of fs p of None \<Rightarrow> Inl (FileNotFoundError p) | Some raw \<Rightarrow> Inr raw)"

definition no_command :: "string list \<Rightarrow> py_error + int \<times> string" where
  "no_command argv = Inr (0, [])"

subsection \<open>Observations on objects and events\<close>

text \<open>The call of \<^verbatim>\<open>ipmitool\<close> that sets a fan level (\<^verbatim>\<open>Ipmi.set_fan_level\<close>).\<close>

definition is_fan_level_write :: "event \<Rightarrow> bool" where
  "is_fan_level_write ev =
     (case ev of
        Run argv \<Rightarrow> length argv = 8 \<and> take 5 (tl argv) = [''raw'', ''0x30'', ''0x70'', ''0x66'', ''0x01'']
      | _ \<Rightarrow> False)"

text \<open>
  A message at ERROR severity, and the events of the standby guard: a command of at most
  five words or a message at INFO severity.
\<close>

definition is_error_log :: "event \<Rightarrow> bool" where
  "is_error_log ev = (case ev of LogMsg level text \<Rightarrow> level = LOG_ERROR | _ \<Rightarrow> False)"

definition guard_event :: "event \<Rightarrow> bool" where
  "guard_event ev =
     (case ev of
        Run argv \<Rightarrow> length argv \<le> 5
      | LogMsg level text \<Rightarrow> level = LOG_INFO
      | Sleep d \<Rightarrow> False)"

text \<open>The guard assigns the three standby attributes and nothing else.\<close>

definition blank_standby :: "'a hd_zone_scheme \<Rightarrow> 'a hd_zone_scheme" where
  "blank_standby self =
     self\<lparr>standby_array_states := [], standby_flag := False, standby_change_timestamp := 0\<rparr>"

definition standby_only :: "'a hd_zone_scheme \<Rightarrow> 'a hd_zone_scheme \<Rightarrow> bool" where
  "standby_only self self1 \<longleftrightarrow> blank_standby self1 = blank_standby self"

text \<open>
  An HD zone of four disks with the guard enabled and the limit 1, built at time 100 with
  every disk active; \<open>smartctl asleep\<close> answers a query for a disk of \<open>asleep\<close> with
  the return code 2 and the word STANDBY, and everything else with the return code 0.
\<close>

definition smartctl :: "string list \<Rightarrow> string list \<Rightarrow> py_error + int \<times> string" where
  "smartctl asleep argv =
     (if length argv = 5 \<and> last argv \<in> set asleep
      then Inr (2, ''Device is in STANDBY mode, exit(2)'')
      else Inr (0, []))"

definition hd_example :: hd_zone where
  "hd_example =
     \<lparr>log_ref = std_log, ipmi_ref = std_ipmi, ipmi_zone = 1, name = ''HD zone'', count = 4,
      temp_calc = 1, steps = 4, sensitivity = 2, polling = 10, min_temp = 32, max_temp = 46,
      min_level = 35, max_level = 100, hwmon_path = [''/h0'', ''/h1'', ''/h2'', ''/h3''],
      temp_step = 7 / 2, level_step = 65 / 4, last_time = 89, last_temp = 0, last_level = 0,
      get_temp_func = Get_avg_temp,
      hd_device_names = [''/dev/d0'', ''/dev/d1'', ''/dev/d2'', ''/dev/d3''],
      standby_guard_enabled = True, standby_hd_limit = 1,
      smartctl_path = ''/usr/sbin/smartctl'', standby_flag = False,
      standby_change_timestamp = 100, standby_array_states = [False, False, False, False]\<rparr>"

definition hd_files :: "rat \<Rightarrow> string \<Rightarrow> py_error + rat" where
  "hd_files raw = files [(''/h0'', raw), (''/h1'', raw), (''/h2'', raw), (''/h3'', raw)]"

definition guard_queries :: "string list \<Rightarrow> event list" where
  "guard_queries devs = map (\<lambda>d. Run [''/usr/sbin/smartctl'', ''-i'', ''-n'', ''standby'', d]) devs"

definition guard_writes :: "string list \<Rightarrow> event list" where
  "guard_writes devs = map (\<lambda>d. Run [''/usr/sbin/smartctl'', ''-s'', ''standby,now'', d]) devs"

text \<open>
  Commands where \<^verbatim>\<open>/usr/bin/ipmitool\<close> does not exist, and the call that sets a level.
\<close>

definition missing_ipmitool ::
  "(string list \<Rightarrow> py_error + int \<times> string) \<Rightarrow> string list \<Rightarrow> py_error + int \<times> string" where
  "missing_ipmitool sp argv =
     (if take 1 argv = [''/usr/bin/ipmitool''] then Inl (FileNotFoundError ''/usr/bin/ipmitool'')
      else sp argv)"

definition ipmitool_level :: "int \<Rightarrow> int \<Rightarrow> event" where
  "ipmitool_level zone level =
     Run [''/usr/bin/ipmitool'', ''raw'', ''0x30'', ''0x70'', ''0x66'', ''0x01'', str_int zone, str_int level]"

section \<open>Properties\<close>

subsection \<open>Rounding\<close>

lemma pow2_powi: "pow2 k = 2 powi k"
  by (simp add: pow2_def power_int_def field_simps)

lemma pow2_pos [simp]: "0 < pow2 k"
  by (simp add: pow2_powi)

lemma pow2_nonneg [simp]: "0 \<le> pow2 k"
  using pow2_pos [of k] by linarith

lemma pow2_neq0 [simp]: "pow2 k \<noteq> 0"
  using pow2_pos [of k] by linarith

lemma pow2_add: "pow2 (a + b) = pow2 a * pow2 b"
  by (simp add: pow2_powi power_int_add)

lemma pow2_mono: "a \<le> b \<Longrightarrow> pow2 a \<le> pow2 b"
  by (simp add: pow2_powi power_int_increasing)

lemma pow2_strict_mono: "a < b \<Longrightarrow> pow2 a < pow2 b"
  by (simp add: pow2_powi power_int_strict_increasing)

lemma pow2_nat: "0 \<le> k \<Longrightarrow> pow2 k = 2 ^ nat k"
  by (simp add: pow2_def)

lemma ilog2_bounds:
  assumes "0 < x"
  shows "pow2 (ilog2 x) \<le> x" and "x < pow2 (ilog2 x + 1)"
proof -
  show "pow2 (ilog2 x) \<le> x"
  proof (cases "1 \<le> x")
    case True
    then have n: "0 < \<lfloor>x\<rfloor>" by linarith
    from bitlen_bounds [OF n] have "(2::int) ^ nat (bitlen \<lfloor>x\<rfloor> - 1) \<le> \<lfloor>x\<rfloor>" by simp
    then have "(of_int ((2::int) ^ nat (bitlen \<lfloor>x\<rfloor> - 1)) :: rat) \<le> of_int \<lfloor>x\<rfloor>"
      by (simp only: of_int_le_iff)
    also have "\<dots> \<le> x" by simp
    finally have "(2::rat) ^ nat (bitlen \<lfloor>x\<rfloor> - 1) \<le> x" by simp
    moreover from n have "1 \<le> bitlen \<lfloor>x\<rfloor>" by (simp add: bitlen_alt_def)
    ultimately show ?thesis using True by (simp add: ilog2_def pow2_nat)
  next
    case False
    let ?y = "1 / x"
    from False assms have y: "1 < ?y" by simp
    then have n: "0 < \<lceil>?y\<rceil> - 1" by linarith
    let ?b = "bitlen (\<lceil>?y\<rceil> - 1)"
    from n have b: "1 \<le> ?b" by (simp add: bitlen_alt_def)
    from bitlen_bounds [OF n] have "\<lceil>?y\<rceil> - 1 < 2 ^ nat ?b" by simp
    then have "\<lceil>?y\<rceil> \<le> 2 ^ nat ?b" by linarith
    then have "(of_int \<lceil>?y\<rceil> :: rat) \<le> of_int (2 ^ nat ?b)" by (simp only: of_int_le_iff)
    moreover have "?y \<le> of_int \<lceil>?y\<rceil>" by (rule le_of_int_ceiling)
    ultimately have "?y \<le> of_int (2 ^ nat ?b)" by (rule order_trans [rotated])
    then have "?y \<le> 2 ^ nat ?b" by simp
    then have "1 / 2 ^ nat ?b \<le> x" using assms by (simp add: field_simps)
    moreover have "pow2 (- ?b) = 1 / 2 ^ nat ?b" using b by (simp add: pow2_def)
    ultimately show ?thesis using False by (simp add: ilog2_def)
  qed
  show "x < pow2 (ilog2 x + 1)"
  proof (cases "1 \<le> x")
    case True
    then have n: "0 < \<lfloor>x\<rfloor>" by linarith
    from bitlen_bounds [OF n] have "\<lfloor>x\<rfloor> + 1 \<le> 2 ^ nat (bitlen \<lfloor>x\<rfloor>)" by simp
    then have "(of_int (\<lfloor>x\<rfloor> + 1) :: rat) \<le> of_int (2 ^ nat (bitlen \<lfloor>x\<rfloor>))"
      by (simp only: of_int_le_iff)
    moreover have "x < of_int (\<lfloor>x\<rfloor> + 1)" by linarith
    ultimately have "x < 2 ^ nat (bitlen \<lfloor>x\<rfloor>)" by simp
    then show ?thesis using True bitlen_nonneg [of "\<lfloor>x\<rfloor>"] by (simp add: ilog2_def pow2_nat)
  next
    case False
    let ?y = "1 / x"
    from False assms have y: "1 < ?y" by simp
    then have n: "0 < \<lceil>?y\<rceil> - 1" by linarith
    let ?b = "bitlen (\<lceil>?y\<rceil> - 1)"
    from n have b: "1 \<le> ?b" by (simp add: bitlen_alt_def)
    from bitlen_bounds [OF n] have "(2::int) ^ nat (?b - 1) \<le> \<lceil>?y\<rceil> - 1" by simp
    then have "(of_int ((2::int) ^ nat (?b - 1)) :: rat) \<le> of_int (\<lceil>?y\<rceil> - 1)"
      by (simp only: of_int_le_iff)
    moreover have "of_int (\<lceil>?y\<rceil> - 1) < ?y" by linarith
    ultimately have "(2::rat) ^ nat (?b - 1) < ?y" by simp
    then have "x < 1 / 2 ^ nat (?b - 1)" using assms by (simp add: field_simps)
    moreover have "pow2 (- ?b + 1) = 1 / 2 ^ nat (?b - 1)"
      using b by (cases "?b = 1") (simp_all add: pow2_def)
    ultimately show ?thesis using False by (simp add: ilog2_def)
  qed
qed


lemma ilog2_mono:
  assumes "0 < x" "x \<le> y"
  shows "ilog2 x \<le> ilog2 y"
proof (rule ccontr)
  assume "\<not> ilog2 x \<le> ilog2 y"
  then have "ilog2 y + 1 \<le> ilog2 x" by simp
  then have "pow2 (ilog2 y + 1) \<le> pow2 (ilog2 x)" by (rule pow2_mono)
  moreover from assms have "0 < y" by simp
  ultimately show False
    using ilog2_bounds(1) [OF assms(1)] ilog2_bounds(2) [of y] assms(2) by linarith
qed

lemma ilog2_ge:
  assumes "0 < x" "pow2 k \<le> x"
  shows "k \<le> ilog2 x"
proof (rule ccontr)
  assume "\<not> k \<le> ilog2 x"
  then have "ilog2 x + 1 \<le> k" by simp
  then have "pow2 (ilog2 x + 1) \<le> pow2 k" by (rule pow2_mono)
  then show False using ilog2_bounds(2) [OF assms(1)] assms(2) by linarith
qed

lemma ilog2_less:
  assumes "0 < x" "x < pow2 k"
  shows "ilog2 x < k"
proof (rule ccontr)
  assume "\<not> ilog2 x < k"
  then have "pow2 k \<le> pow2 (ilog2 x)" by (simp add: pow2_mono)
  then show False using ilog2_bounds(1) [OF assms(1)] assms(2) by linarith
qed

lemma py_round_of_int: "py_round (of_int n) = n"
  by (simp add: py_round_def)

lemma py_round_lower: "\<lfloor>x\<rfloor> \<le> py_round x"
  by (simp add: py_round_def Let_def)

lemma py_round_upper: "py_round x \<le> \<lfloor>x\<rfloor> + 1"
  by (simp add: py_round_def Let_def)

lemma py_round_mono:
  assumes "x \<le> y"
  shows "py_round x \<le> py_round y"
proof (cases "\<lfloor>x\<rfloor> = \<lfloor>y\<rfloor>")
  case True
  with assms have "x - of_int \<lfloor>x\<rfloor> \<le> y - of_int \<lfloor>y\<rfloor>" by simp
  with True show ?thesis
    by (auto simp add: py_round_def Let_def)
next
  case False
  with assms have "\<lfloor>x\<rfloor> < \<lfloor>y\<rfloor>" using floor_mono [OF assms] by linarith
  then have "py_round x \<le> \<lfloor>y\<rfloor>" using py_round_upper [of x] by linarith
  then show ?thesis using py_round_lower [of y] by linarith
qed

lemma py_round_error: "\<bar>of_int (py_round x) - x\<bar> \<le> 1 / 2"
proof -
  have "of_int \<lfloor>x\<rfloor> \<le> x" "x < of_int \<lfloor>x\<rfloor> + 1" by linarith+
  then show ?thesis by (auto simp add: py_round_def Let_def)
qed

lemma fl_exp_ge: "- 1074 \<le> fl_exp x"
proof (cases "\<bar>x\<bar> < pow2 (- 1022)")
  case True
  then show ?thesis by (simp add: fl_exp_def)
next
  case False
  then have "pow2 (- 1022) \<le> \<bar>x\<bar>" by simp
  moreover from this have "0 < \<bar>x\<bar>" using pow2_pos [of "- 1022"] by linarith
  ultimately have "- 1022 \<le> ilog2 \<bar>x\<bar>" by (intro ilog2_ge)
  with False show ?thesis by (simp add: fl_exp_def)
qed

lemma fl_exp_above: "x \<noteq> 0 \<Longrightarrow> \<bar>x\<bar> < pow2 (fl_exp x + 53)"
proof (cases "\<bar>x\<bar> < pow2 (- 1022)")
  case True
  then have "\<bar>x\<bar> < pow2 (- 1022)" .
  also have "pow2 (- 1022) \<le> pow2 (- 1074 + 53)" by (rule pow2_mono) simp
  finally show ?thesis using True by (simp add: fl_exp_def)
next
  case False
  assume "x \<noteq> 0"
  then have "0 < \<bar>x\<bar>" by simp
  from ilog2_bounds(2) [OF this] False show ?thesis by (simp add: fl_exp_def add.commute)
qed

lemma fl_exp_mono:
  assumes "\<bar>x\<bar> \<le> \<bar>y\<bar>" "x \<noteq> 0"
  shows "fl_exp x \<le> fl_exp y"
proof (cases "\<bar>x\<bar> < pow2 (- 1022)")
  case True
  then show ?thesis using fl_exp_ge [of y] by (simp add: fl_exp_def)
next
  case False
  with assms have ny: "\<not> \<bar>y\<bar> < pow2 (- 1022)" by linarith
  from assms have "0 < \<bar>x\<bar>" by simp
  from ilog2_mono [OF this assms(1)] False ny show ?thesis by (simp add: fl_exp_def)
qed


lemma fl_exp_below: "\<not> \<bar>x\<bar> < pow2 (- 1022) \<Longrightarrow> pow2 (fl_exp x + 52) \<le> \<bar>x\<bar>"
proof -
  assume a: "\<not> \<bar>x\<bar> < pow2 (- 1022)"
  then have "0 < \<bar>x\<bar>" using pow2_pos [of "- 1022"] by linarith
  from ilog2_bounds(1) [OF this] a show ?thesis by (simp add: fl_exp_def)
qed

lemma fl_zero [simp]: "fl 0 = 0"
  by (simp add: fl_def)

lemma fl_scaled: "fl x = of_int (py_round (x / pow2 (fl_exp x))) * pow2 (fl_exp x)"
  by (simp add: fl_def py_round_def)

lemma fl_nonneg: "0 \<le> x \<Longrightarrow> 0 \<le> fl x"
proof -
  assume "0 \<le> x"
  then have "0 \<le> x / pow2 (fl_exp x)" by simp
  then have "py_round 0 \<le> py_round (x / pow2 (fl_exp x))" by (rule py_round_mono)
  then have "0 \<le> py_round (x / pow2 (fl_exp x))" using py_round_of_int [of 0] by simp
  then show ?thesis by (subst fl_scaled) simp
qed

lemma fl_nonpos: "x \<le> 0 \<Longrightarrow> fl x \<le> 0"
proof -
  assume "x \<le> 0"
  then have "x / pow2 (fl_exp x) \<le> 0" by (simp add: divide_le_0_iff)
  then have "py_round (x / pow2 (fl_exp x)) \<le> py_round 0" by (rule py_round_mono)
  then have "py_round (x / pow2 (fl_exp x)) \<le> 0" using py_round_of_int [of 0] by simp
  then show ?thesis by (subst fl_scaled) (simp add: mult_le_0_iff)
qed

text \<open>Rounding on one grid is monotone, and a grid point stays where it is.\<close>

lemma grid_mono:
  "x \<le> y \<Longrightarrow> of_int (py_round (x / pow2 q)) * pow2 q \<le> of_int (py_round (y / pow2 q)) * pow2 q"
proof -
  assume "x \<le> y"
  then have "x / pow2 q \<le> y / pow2 q" by (simp add: divide_right_mono)
  then have "py_round (x / pow2 q) \<le> py_round (y / pow2 q)" by (rule py_round_mono)
  then show ?thesis by (simp add: mult_right_mono)
qed

lemma grid_point:
  "q \<le> k \<Longrightarrow> of_int (py_round (pow2 k / pow2 q)) * pow2 q = pow2 k"
proof -
  assume "q \<le> k"
  have "pow2 k = pow2 (k - q) * pow2 q" using pow2_add [of "k - q" q] by simp
  then have d: "pow2 k / pow2 q = pow2 (k - q)" by simp
  have i: "pow2 (k - q) = of_int (2 ^ nat (k - q))" using \<open>q \<le> k\<close> by (simp add: pow2_def)
  have "of_int (py_round (pow2 k / pow2 q)) = pow2 (k - q)"
    unfolding d by (subst i, subst py_round_of_int, subst i) (rule refl)
  then show ?thesis using pow2_add [of "k - q" q] by simp
qed

lemma fl_pos_upper: "0 < x \<Longrightarrow> fl x \<le> pow2 (fl_exp x + 53)"
proof -
  assume p: "0 < x"
  then have "x \<le> pow2 (fl_exp x + 53)" using fl_exp_above [of x] by simp
  from grid_mono [OF this, of "fl_exp x"] grid_point [of "fl_exp x" "fl_exp x + 53"]
  show ?thesis by (subst fl_scaled) simp
qed

lemma fl_pos_lower: "0 < x \<Longrightarrow> \<not> x < pow2 (- 1022) \<Longrightarrow> pow2 (fl_exp x + 52) \<le> fl x"
proof -
  assume p: "0 < x" and n: "\<not> x < pow2 (- 1022)"
  then have "pow2 (fl_exp x + 52) \<le> x" using fl_exp_below [of x] by simp
  from grid_mono [OF this, of "fl_exp x"] grid_point [of "fl_exp x" "fl_exp x + 52"]
  show ?thesis by (subst fl_scaled) simp
qed

lemma fl_mono_pos:
  assumes "0 < x" "x \<le> y"
  shows "fl x \<le> fl y"
proof -
  from assms have y: "0 < y" by simp
  from assms have "fl_exp x \<le> fl_exp y" by (intro fl_exp_mono) simp_all
  then consider "fl_exp x = fl_exp y" | "fl_exp x < fl_exp y" by linarith
  then show ?thesis
  proof cases
    case 1
    have "fl x = of_int (py_round (x / pow2 (fl_exp y))) * pow2 (fl_exp y)"
      using fl_scaled [of x] 1 by simp
    also have "\<dots> \<le> of_int (py_round (y / pow2 (fl_exp y))) * pow2 (fl_exp y)"
      by (rule grid_mono [OF assms(2)])
    also have "\<dots> = fl y" by (rule fl_scaled [symmetric])
    finally show ?thesis .
  next
    case 2
    have ny: "\<not> y < pow2 (- 1022)"
    proof
      assume "y < pow2 (- 1022)"
      with y have "fl_exp y = - 1074" by (simp add: fl_exp_def)
      with 2 fl_exp_ge [of x] show False by simp
    qed
    from 2 have "pow2 (fl_exp x + 53) \<le> pow2 (fl_exp y + 52)" by (intro pow2_mono) simp
    with fl_pos_upper [OF assms(1)] fl_pos_lower [OF y ny] show ?thesis by linarith
  qed
qed


lemma py_round_neg: "py_round (- x) = - py_round x"
proof (cases "x = of_int \<lfloor>x\<rfloor>")
  case True
  then obtain n where "x = of_int n" ..
  then show ?thesis using py_round_of_int [of n] py_round_of_int [of "- n"] by simp
next
  case False
  then have fr: "of_int \<lfloor>x\<rfloor> < x" "x < of_int \<lfloor>x\<rfloor> + 1" by linarith+
  then have fm: "\<lfloor>- x\<rfloor> = - \<lfloor>x\<rfloor> - 1" by (intro floor_unique) simp_all
  show ?thesis
    using fr by (auto simp add: py_round_def Let_def fm)
qed

lemma fl_exp_neg [simp]: "fl_exp (- x) = fl_exp x"
  by (simp add: fl_exp_def)

lemma fl_neg: "fl (- x) = - fl x"
  by (simp add: fl_def py_round_neg)

lemma fl_mono:
  assumes "x \<le> y"
  shows "fl x \<le> fl y"
proof -
  consider "0 < x" | "x \<le> 0" "0 \<le> y" | "y < 0" by linarith
  then show ?thesis
  proof cases
    case 1
    then show ?thesis using assms by (rule fl_mono_pos)
  next
    case 2
    then show ?thesis using fl_nonpos [of x] fl_nonneg [of y] by linarith
  next
    case 3
    with assms have "0 < - y" "- y \<le> - x" by simp_all
    then have "fl (- y) \<le> fl (- x)" by (rule fl_mono_pos)
    then show ?thesis by (simp add: fl_neg)
  qed
qed

lemma fl_error:
  "\<bar>fl x - x\<bar> \<le> pow2 (fl_exp x) / 2"
proof -
  let ?q = "pow2 (fl_exp x)"
  have "fl x - x = (of_int (py_round (x / ?q)) - x / ?q) * ?q"
    by (subst fl_scaled) (simp add: field_simps)
  then have "\<bar>fl x - x\<bar> = \<bar>of_int (py_round (x / ?q)) - x / ?q\<bar> * ?q"
    by (simp add: abs_mult)
  also have "\<dots> \<le> (1 / 2) * ?q"
    by (intro mult_right_mono py_round_error) simp
  finally show ?thesis by simp
qed

lemma fl_error_half:
  assumes "\<bar>x\<bar> < 2 ^ 53"
  shows "\<bar>fl x - x\<bar> \<le> 1 / 2"
proof -
  have "fl_exp x \<le> 0"
  proof (cases "\<bar>x\<bar> < pow2 (- 1022)")
    case True
    then show ?thesis by (simp add: fl_exp_def)
  next
    case False
    then have p: "0 < \<bar>x\<bar>" using pow2_pos [of "- 1022"] by linarith
    have "\<bar>x\<bar> < pow2 53" using assms by (simp add: pow2_def)
    from ilog2_less [OF p this] False show ?thesis by (simp add: fl_exp_def)
  qed
  then have "pow2 (fl_exp x) \<le> pow2 0" by (rule pow2_mono)
  then have "pow2 (fl_exp x) \<le> 1" by (simp add: pow2_def)
  with fl_error [of x] show ?thesis by linarith
qed

text \<open>Below \<open>2 ^ - 1022\<close> the doubles are the multiples of \<open>2 ^ - 1074\<close>.\<close>

lemma fl_tiny:
  assumes "\<bar>r\<bar> < 2 ^ 52"
  shows "fl (r * pow2 (- 1074)) = of_int (py_round r) * pow2 (- 1074)"
proof (cases "r = 0")
  case True
  then show ?thesis using py_round_of_int [of 0] by simp
next
  case False
  have "pow2 (- 1022) = pow2 52 * pow2 (- 1074)" using pow2_add [of 52 "- 1074"] by simp
  also have "pow2 52 = 2 ^ 52" by (simp add: pow2_def)
  finally have "\<bar>r * pow2 (- 1074)\<bar> < pow2 (- 1022)" using assms by (simp add: abs_mult)
  then have "fl_exp (r * pow2 (- 1074)) = - 1074" by (simp add: fl_exp_def)
  then show ?thesis using False by (simp add: fl_def)
qed

lemma fl_ge_double: "is_double p \<Longrightarrow> p \<le> x \<Longrightarrow> p \<le> fl x"
  using fl_mono [of p x] by (simp add: is_double_def)

lemma fl_le_double: "is_double p \<Longrightarrow> x \<le> p \<Longrightarrow> fl x \<le> p"
  using fl_mono [of x p] by (simp add: is_double_def)

subsection \<open>The level curve\<close>

lemma example_constructed:
  "CpuZone_init (world 100 (\<lambda>p. Inr 42500) (\<lambda>a. Inr (0, []))) std_log std_ipmi
     (no_config\<lparr>cfg_hwmon_path := Some ''/t0''\<rparr>) = (Return cpu_example, [])"
  by code_simp

lemma example_valid: "valid_config cpu_example"
  by code_simp

lemma flat_constructed:
  "CpuZone_init (world 100 (\<lambda>p. Inr 42500) (\<lambda>a. Inr (0, []))) std_log std_ipmi
     (no_config\<lparr>cfg_hwmon_path := Some ''/t0'', cfg_max_temp := Some 30\<rparr>) = (Return flat_example, [])"
  by code_simp

text \<open>
  C1, as stated, fails: the constructor accepts \<open>max_temp = min_temp\<close>, and then the
  first branch of step 3 answers for \<open>max_temp\<close> with \<open>min_level\<close> (35), not with
  \<open>max_level\<close> (100).
\<close>

theorem level_at_max_temp_counterexample:
  "valid_config flat_example \<and>
   gain_level flat_example (max_temp flat_example) = Inr (0, 35) \<and>
   max_level flat_example = 100"
  by code_simp

text \<open>
  C1, amended. The level at \<open>min_temp\<close> is \<open>min_level\<close>; the level at \<open>max_temp\<close> is
  \<open>max_level\<close> when \<open>min_temp < max_temp\<close>, and \<open>min_level\<close> when the two temperatures
  are equal. For 6 steps between 30 and 60 C and levels 35 to 100 the curve gives 35 at
  30 C, 67 at 45 C (step 3; the tie 32.5 rounds to the even 32) and 100 at 60 C.
\<close>

theorem level_at_bounds:
  "gain_level self (min_temp self) = Inr (0, min_level self) \<and>
   (min_temp self < max_temp self \<longrightarrow>
      gain_level self (max_temp self) = Inr (steps self, max_level self)) \<and>
   (max_temp self \<le> min_temp self \<longrightarrow>
      gain_level self (max_temp self) = Inr (0, min_level self)) \<and>
   gain_level cpu_example 30 = Inr (0, 35) \<and>
   gain_level cpu_example 45 = Inr (3, 67) \<and>
   gain_level cpu_example 60 = Inr (6, 100)"
proof -
  have a: "gain_level cpu_example 30 = Inr (0, 35)" by code_simp
  have b: "gain_level cpu_example 45 = Inr (3, 67)" by code_simp
  have c: "gain_level cpu_example 60 = Inr (6, 100)" by code_simp
  show ?thesis using a b c by (simp add: gain_level_def)
qed

theorem level_at_bounds_witness:
  "min_temp cpu_example < max_temp cpu_example \<and>
   gain_level cpu_example (min_temp cpu_example) = Inr (0, 35) \<and>
   gain_level cpu_example (max_temp cpu_example) = Inr (6, 100) \<and>
   max_temp flat_example \<le> min_temp flat_example \<and>
   gain_level flat_example (max_temp flat_example) = Inr (0, 35)"
  using level_at_bounds [of cpu_example] level_at_bounds [of flat_example]
  by (simp add: cpu_example_def flat_example_def)

subsection \<open>The order of the levels\<close>

lemma valid_config_steps:
  assumes "valid_config self"
  shows "0 \<le> temp_step self" and "0 \<le> level_step self"
proof -
  from assms have st: "1 \<le> steps self" and t: "min_temp self \<le> max_temp self"
    and l: "min_level self \<le> max_level self"
    and ts: "temp_step self = fl (fl (max_temp self - min_temp self) / fl (of_int (steps self)))"
    and ls: "level_step self = fl (of_int (max_level self - min_level self) / of_int (steps self))"
    by (simp_all add: valid_config_def)
  have "0 \<le> fl (max_temp self - min_temp self)" using t by (simp add: fl_nonneg)
  moreover have "0 \<le> fl (of_int (steps self))" using st by (simp add: fl_nonneg)
  ultimately show "0 \<le> temp_step self" unfolding ts by (simp add: fl_nonneg)
  have "(0::rat) \<le> of_int (max_level self - min_level self) / of_int (steps self)"
    using st l by simp
  then show "0 \<le> level_step self" unfolding ls by (rule fl_nonneg)
qed

text \<open>
  Below \<open>max_temp\<close> the gain and the level grow with the temperature: the first and the
  third branch of step 3 agree with each other.
\<close>

lemma gain_level_inside_mono:
  assumes v: "valid_config self" and ts: "temp_step self \<noteq> 0"
    and le: "t1 \<le> t2" and lt: "t2 < max_temp self"
  shows "\<exists>g1 l1 g2 l2. gain_level self t1 = Inr (g1, l1) \<and> gain_level self t2 = Inr (g2, l2) \<and>
           g1 \<le> g2 \<and> l1 \<le> l2"
proof -
  define G where "G t = py_round (fl (fl (t - min_temp self) / temp_step self))" for t
  define Lv where "Lv g = py_round (fl (fl (of_int g) * level_step self)) + min_level self" for g
  have tp: "0 < temp_step self" using valid_config_steps(1) [OF v] ts by simp
  have lp: "0 \<le> level_step self" by (rule valid_config_steps(2) [OF v])
  have Gm: "G a \<le> G b" if "a \<le> b" for a b
  proof -
    from that have "fl (a - min_temp self) \<le> fl (b - min_temp self)" by (simp add: fl_mono)
    then have "fl (a - min_temp self) / temp_step self \<le> fl (b - min_temp self) / temp_step self"
      using tp by (simp add: divide_right_mono)
    then show ?thesis unfolding G_def by (intro py_round_mono fl_mono)
  qed
  have Lm: "Lv a \<le> Lv b" if "a \<le> b" for a b
  proof -
    from that have "fl (of_int a) \<le> fl (of_int b)" by (simp add: fl_mono)
    then have "fl (of_int a) * level_step self \<le> fl (of_int b) * level_step self"
      using lp by (simp add: mult_right_mono)
    then have "py_round (fl (fl (of_int a) * level_step self)) \<le> py_round (fl (fl (of_int b) * level_step self))"
      by (intro py_round_mono fl_mono)
    then show ?thesis unfolding Lv_def by simp
  qed
  have G0: "G (min_temp self) = 0" using py_round_of_int [of 0] by (simp add: G_def)
  have L0: "Lv 0 = min_level self" using py_round_of_int [of 0] by (simp add: Lv_def)
  have inside: "gain_level self t = Inr (G t, Lv (G t))" if "min_temp self < t" "t < max_temp self" for t
    using that ts by (simp add: gain_level_def G_def Lv_def Let_def)
  have below: "gain_level self t = Inr (0, min_level self)" if "t \<le> min_temp self" for t
    using that by (simp add: gain_level_def)
  consider "t2 \<le> min_temp self" | "t1 \<le> min_temp self" "min_temp self < t2" | "min_temp self < t1"
    by linarith
  then show ?thesis
  proof cases
    case 1
    then show ?thesis using below [of t1] below [of t2] le by simp
  next
    case 2
    have "0 \<le> G t2" using Gm [of "min_temp self" t2] 2 G0 by simp
    moreover from this have "min_level self \<le> Lv (G t2)" using Lm [of 0 "G t2"] L0 by simp
    ultimately show ?thesis using below [OF 2(1)] inside [OF 2(2) lt] by simp
  next
    case 3
    then show ?thesis using inside [of t1] inside [of t2] le lt Gm [OF le] Lm [OF Gm [OF le]] by simp
  qed
qed

lemma fl_small_int: "fl 3 = 3" "fl 5 = 5" "fl 6 = 6" "fl 13 = 13" "fl 78 = 78" "fl 97 = 97"
  by code_simp+

lemma py_round_small: "py_round 6 = 6" "py_round 78 = 78" "py_round (7 / 5) = 1" "py_round 7 = 7"
  "py_round (759 / 125) = 6"
  by code_simp+

lemma fl_tiny_6: "fl (6 * pow2 (- 1074)) = 6 * pow2 (- 1074)"
  using fl_tiny [of 6] by (simp add: py_round_small)

lemma fl_tiny_7: "fl (7 * pow2 (- 1074)) = 7 * pow2 (- 1074)"
  using fl_tiny [of 7] by (simp add: py_round_small)

lemma fl_tiny_step: "fl (7 * pow2 (- 1074) / 5) = pow2 (- 1074)"
  using fl_tiny [of "7 / 5"] by (simp add: py_round_small)

text \<open>
  The constructor builds \<open>tiny_example\<close> from \<^verbatim>\<open>steps=5\<close>, \<^verbatim>\<open>min_temp=0\<close> and
  \<^verbatim>\<open>max_temp=3.5e-323\<close>, and a sensor file that holds \<^verbatim>\<open>3e-320\<close> (6072 times the
  smallest binary64 number) is read as 6 times that number.
\<close>

lemma tiny_constructed:
  "CpuZone_init (world 100 (\<lambda>p. Inr 42500) (\<lambda>a. Inr (0, []))) std_log std_ipmi
     (no_config\<lparr>cfg_hwmon_path := Some ''/t0'', cfg_steps := Some 5, cfg_min_temp := Some 0,
        cfg_max_temp := Some (7 * pow2 (- 1074))\<rparr>) = (Return tiny_example, [])"
proof -
  have p: "parse_paths ''/t0'' = [''/t0'']" by code_simp
  show ?thesis
    using pow2_pos [of "- 1074"]
    by (simp add: CpuZone_init_def FanController_init_def fallback_def no_config_def
        CpuZone_build_hwmon_path_def build_hwmon_path_def p world_def std_log_def
        CPU_ZONE_def HD_ZONE_def CALC_AVG_def CALC_MIN_def CALC_MAX_def LOG_DEBUG_def
        call_get_temp_func_def get_1_temp_def new_object_def tiny_example_def cpu_example_def
        fl_small_int fl_tiny_7 fl_tiny_step not_le not_less less_imp_le)
qed

lemma tiny_reading:
  "call_get_temp_func (world t (files [(''/t0'', 6072 * pow2 (- 1074))]) sp) tiny_example
   = Inr (6 * pow2 (- 1074))"
  using fl_tiny [of "6072 / 1000"]
  by (simp add: call_get_temp_func_def get_1_temp_def tiny_example_def cpu_example_def
      world_def files_def py_round_small)

lemma tiny_level_refused:
  "set_fan_level e tiny_example 113 = (Raise (ValueError ''Invalid value: level''), [])"
  by (simp add: set_fan_level_def Ipmi_set_fan_level_def tiny_example_def cpu_example_def
      CPU_ZONE_def HD_ZONE_def)

text \<open>
  C6. The levels are not in the order of the temperatures. For 5 steps between 0 C and
  \<open>7 * 2 ^ - 1074\<close> C and the levels 35 to 100, a configuration that the constructor
  accepts, the third branch of step 3 gives the gain 6 and the level 113 at
  \<open>6 * 2 ^ - 1074\<close> C, and the second branch the gain 5 and the level 100 at the higher
  temperature \<open>max_temp\<close>: the third branch does not stop at \<open>steps\<close> and \<open>max_level\<close>
  as the second does.
\<close>

theorem level_order_broken:
  "valid_config tiny_example \<and>
   6 * pow2 (- 1074) \<le> max_temp tiny_example \<and>
   gain_level tiny_example (6 * pow2 (- 1074)) = Inr (6, 113) \<and>
   gain_level tiny_example (max_temp tiny_example) = Inr (5, 100) \<and>
   steps tiny_example = 5 \<and> max_level tiny_example = 100"
proof -
  have v: "valid_config tiny_example"
    by (simp add: valid_config_def tiny_example_def cpu_example_def fl_small_int fl_tiny_7 fl_tiny_step)
  have a: "gain_level tiny_example (6 * pow2 (- 1074)) = Inr (6, 113)"
    using pow2_pos [of "- 1074"]
    by (simp add: gain_level_def tiny_example_def cpu_example_def fl_small_int fl_tiny_6
        py_round_small not_le)
  have b: "gain_level tiny_example (max_temp tiny_example) = Inr (5, 100)"
    using pow2_pos [of "- 1074"]
    by (simp add: gain_level_def tiny_example_def cpu_example_def not_le)
  show ?thesis using v a b by (simp add: tiny_example_def cpu_example_def)
qed

subsection \<open>Aggregation of the sensors\<close>

lemma pair_constructed:
  "CpuZone_init (world 100 (files [(''/t0'', - 5000), (''/t1'', - 10000)]) no_command) std_log std_ipmi
     (no_config\<lparr>cfg_count := Some 2, cfg_temp_calc := Some 2, cfg_hwmon_path := Some ''/t0 /t1''\<rparr>)
   = (Return (pair_example CALC_MAX), [])"
  by code_simp

lemma min_loop_readable:
  "\<forall>p \<in> set ps. \<exists>raw. read_float e p = Inr raw \<Longrightarrow>
   min_loop e ps m = Inr (foldl min m (map (\<lambda>p. fl (projr (read_float e p) / 1000)) ps))"
proof (induction ps arbitrary: m)
  case Nil
  then show ?case by simp
next
  case (Cons p ps)
  then obtain raw where r: "read_float e p = Inr raw" by auto
  from Cons.prems have rest: "\<forall>p \<in> set ps. \<exists>raw. read_float e p = Inr raw" by simp
  show ?case using r Cons.IH [OF rest] by (simp add: min_def)
qed

lemma max_loop_readable:
  "\<forall>p \<in> set ps. \<exists>raw. read_float e p = Inr raw \<Longrightarrow>
   max_loop e ps m = Inr (foldl max m (map (\<lambda>p. fl (projr (read_float e p) / 1000)) ps))"
proof (induction ps arbitrary: m)
  case Nil
  then show ?case by simp
next
  case (Cons p ps)
  then obtain raw where r: "read_float e p = Inr raw" by auto
  from Cons.prems have rest: "\<forall>p \<in> set ps. \<exists>raw. read_float e p = Inr raw" by simp
  have "max_loop e (p # ps) m = max_loop e ps (max m (fl (raw / 1000)))"
    using r by (auto simp add: max_def Let_def)
  then show ?case using r Cons.IH [OF rest] by simp
qed

lemma avg_loop_readable:
  "\<forall>p \<in> set ps. \<exists>raw. read_float e p = Inr raw \<Longrightarrow>
   avg_loop e ps a c =
     Inr (foldl (\<lambda>a v. fl (a + v)) a (map (\<lambda>p. fl (projr (read_float e p) / 1000)) ps),
          c + int (length ps))"
proof (induction ps arbitrary: a c)
  case Nil
  then show ?case by simp
next
  case (Cons p ps)
  then obtain raw where r: "read_float e p = Inr raw" by auto
  from Cons.prems have rest: "\<forall>p \<in> set ps. \<exists>raw. read_float e p = Inr raw" by simp
  show ?case using r Cons.IH [OF rest] by (simp add: algebra_simps)
qed

lemma avg_example:
  "get_avg_temp (world 100 (files [(''/t0'', 30000), (''/t1'', 40000), (''/t2'', 50000)]) no_command)
     (cpu_example\<lparr>count := 3, hwmon_path := [''/t0'', ''/t1'', ''/t2'']\<rparr>) = Inr 40"
  by code_simp

text \<open>
  C7. The running maximum starts at \<open>-1\<close> and the running minimum at \<open>1000\<close>: two
  readable sensors at \<open>-5\<close> and \<open>-10\<close> C have the maximum \<open>-1\<close>, and two at 2000 and 3000 C
  the minimum 1000, where the claim (and the docstrings of both methods) promise the
  maximum \<open>-5\<close> and the minimum 2000 of the readings.
\<close>

theorem sentinel_temperatures:
  "call_get_temp_func (world 100 (files [(''/t0'', - 5000), (''/t1'', - 10000)]) no_command)
     (pair_example CALC_MAX) = Inr (- 1) \<and>
   call_get_temp_func (world 100 (files [(''/t0'', 2000000), (''/t1'', 3000000)]) no_command)
     (pair_example CALC_MIN) = Inr 1000"
  by code_simp

subsection \<open>The branches of a tick\<close>

lemma run_not_due:
  "fl (time_fc e - last_time self) < polling self \<Longrightarrow> run cb e self = (Return (), self, [])"
  by (simp add: run_def)

lemma run_callback_raises:
  "\<not> fl (time_fc e - last_time self) < polling self \<Longrightarrow>
   cb e (self\<lparr>last_time := time_fc e\<rparr>) = (Raise err, after, evs) \<Longrightarrow>
   run cb e self = (Raise err, after, evs)"
  by (simp add: run_def)

lemma run_read_raises:
  "\<not> fl (time_fc e - last_time self) < polling self \<Longrightarrow>
   cb e (self\<lparr>last_time := time_fc e\<rparr>) = (Return (), after, evs) \<Longrightarrow>
   call_get_temp_func e after = Inl err \<Longrightarrow>
   run cb e self = (Raise err, after, evs)"
  by (simp add: run_def)

lemma run_within_sensitivity:
  "\<not> fl (time_fc e - last_time self) < polling self \<Longrightarrow>
   cb e (self\<lparr>last_time := time_fc e\<rparr>) = (Return (), after, evs) \<Longrightarrow>
   call_get_temp_func e after = Inr t \<Longrightarrow>
   \<bar>fl (t - last_temp after)\<bar> < sensitivity after \<Longrightarrow>
   run cb e self = (Return (), after, evs @ [msg_new_temperature after t])"
  by (simp add: run_def)

lemma run_same_level:
  "\<not> fl (time_fc e - last_time self) < polling self \<Longrightarrow>
   cb e (self\<lparr>last_time := time_fc e\<rparr>) = (Return (), after, evs) \<Longrightarrow>
   call_get_temp_func e after = Inr t \<Longrightarrow>
   \<not> \<bar>fl (t - last_temp after)\<bar> < sensitivity after \<Longrightarrow>
   gain_level (after\<lparr>last_temp := t\<rparr>) t = Inr (g, l) \<Longrightarrow>
   l = last_level after \<Longrightarrow>
   run cb e self = (Return (), after\<lparr>last_temp := t\<rparr>, evs @ [msg_new_temperature after t])"
  by (simp add: run_def)

lemma run_write_raises:
  "\<not> fl (time_fc e - last_time self) < polling self \<Longrightarrow>
   cb e (self\<lparr>last_time := time_fc e\<rparr>) = (Return (), after, evs) \<Longrightarrow>
   call_get_temp_func e after = Inr t \<Longrightarrow>
   \<not> \<bar>fl (t - last_temp after)\<bar> < sensitivity after \<Longrightarrow>
   gain_level (after\<lparr>last_temp := t\<rparr>) t = Inr (g, l) \<Longrightarrow>
   l \<noteq> last_level after \<Longrightarrow>
   set_fan_level e (after\<lparr>last_temp := t, last_level := l\<rparr>) l = (Raise err, evw) \<Longrightarrow>
   run cb e self =
     (Raise err, after\<lparr>last_temp := t, last_level := l\<rparr>, evs @ [msg_new_temperature after t] @ evw)"
  by (simp add: run_def)

lemma run_new_level:
  "\<not> fl (time_fc e - last_time self) < polling self \<Longrightarrow>
   cb e (self\<lparr>last_time := time_fc e\<rparr>) = (Return (), after, evs) \<Longrightarrow>
   call_get_temp_func e after = Inr t \<Longrightarrow>
   \<not> \<bar>fl (t - last_temp after)\<bar> < sensitivity after \<Longrightarrow>
   gain_level (after\<lparr>last_temp := t\<rparr>) t = Inr (g, l) \<Longrightarrow>
   l \<noteq> last_level after \<Longrightarrow>
   set_fan_level e (after\<lparr>last_temp := t, last_level := l\<rparr>) l = (Return (), evw) \<Longrightarrow>
   run cb e self =
     (Return (), after\<lparr>last_temp := t, last_level := l\<rparr>,
      evs @ [msg_new_temperature after t] @ evw @
      [msg_new_level (after\<lparr>last_temp := t, last_level := l\<rparr>) t g l])"
  by (simp add: run_def Let_def)

lemma temp_func_frame:
  "hwmon_path a = hwmon_path b \<Longrightarrow> get_temp_func a = get_temp_func b \<Longrightarrow>
   call_get_temp_func e a = call_get_temp_func e b"
  by (simp add: call_get_temp_func_def get_1_temp_def get_min_temp_def get_avg_temp_def get_max_temp_def
      split: temp_func.splits)


subsection \<open>The standby guard leaves the controller alone\<close>

lemma standby_only_refl: "standby_only self self"
  by (simp add: standby_only_def)

lemma standby_only_trans:
  "standby_only a b \<Longrightarrow> standby_only b c \<Longrightarrow> standby_only a c"
  by (simp add: standby_only_def)

lemma standby_only_states: "standby_only self (self\<lparr>standby_array_states := xs\<rparr>)"
  by (simp add: standby_only_def blank_standby_def)

lemma standby_only_flag:
  "standby_only self s \<Longrightarrow>
   standby_only self (s\<lparr>standby_flag := b, standby_change_timestamp := t\<rparr>)"
  by (simp add: standby_only_def blank_standby_def)

lemma check_standby_loop_frame:
  "check_standby_loop e idx self = (r, self1, ev) \<Longrightarrow>
   standby_only self self1 \<and> (\<forall>x \<in> set ev. guard_event x)"
proof (induction idx arbitrary: self r self1 ev)
  case Nil
  then show ?case by (simp add: standby_only_refl)
next
  case (Cons i idx)
  let ?self1 = "self\<lparr>standby_array_states := (standby_array_states self)[i := False]\<rparr>"
  let ?argv = "[smartctl_path self, ''-i'', ''-n'', ''standby'', hd_device_names self ! i]"
  have nw: "guard_event (Run ?argv)" by (simp add: guard_event_def)
  show ?case
  proof (cases "length (standby_array_states self) \<le> i \<or> length (hd_device_names self) \<le> i")
    case True
    with Cons.prems show ?thesis
      by (auto simp add: standby_only_refl standby_only_states Let_def split: if_splits)
  next
    case False
    show ?thesis
    proof (cases "subprocess_run e ?argv")
      case (Inl err)
      with False Cons.prems nw show ?thesis
        by (auto simp add: standby_only_states Let_def)
    next
      case (Inr res)
      obtain returncode stdout where res: "res = (returncode, stdout)" by (cases res)
      show ?thesis
      proof (cases "returncode \<noteq> 0 \<and> returncode \<noteq> 2")
        case True
        with False Cons.prems nw Inr res show ?thesis
          by (auto simp add: standby_only_states Let_def)
      next
        case ok: False
        let ?self2 = "if in_str ''STANDBY'' stdout
                      then ?self1\<lparr>standby_array_states := (standby_array_states ?self1)[i := True]\<rparr>
                      else ?self1"
        obtain r' s' ev' where rec: "check_standby_loop e idx ?self2 = (r', s', ev')"
          by (cases "check_standby_loop e idx ?self2")
        from Cons.IH [OF rec] have ih: "standby_only ?self2 s'" "\<forall>x \<in> set ev'. guard_event x"
          by simp_all
        have "standby_only self ?self2" by (simp add: standby_only_def blank_standby_def)
        from this ih(1) have so: "standby_only self s'" by (rule standby_only_trans)
        from False ok Cons.prems Inr res rec have "self1 = s'" "ev = Run ?argv # ev'"
          by (auto simp add: Let_def split: if_splits)
        with so ih(2) nw show ?thesis by simp
      qed
    qed
  qed
qed


lemma go_standby_loop_frame:
  "go_standby_loop e idx self = (r, self1, ev) \<Longrightarrow>
   standby_only self self1 \<and> (\<forall>x \<in> set ev. guard_event x)"
proof (induction idx arbitrary: self r self1 ev)
  case Nil
  then show ?case by (simp add: standby_only_refl)
next
  case (Cons i idx)
  let ?argv = "[smartctl_path self, ''-s'', ''standby,now'', hd_device_names self ! i]"
  let ?self1 = "self\<lparr>standby_array_states := (standby_array_states self)[i := True]\<rparr>"
  have nw: "guard_event (Run ?argv)" by (simp add: guard_event_def)
  show ?case
  proof (cases "length (standby_array_states self) \<le> i")
    case True
    with Cons.prems show ?thesis by (auto simp add: standby_only_refl)
  next
    case inr: False
    show ?thesis
    proof (cases "standby_array_states self ! i")
      case True
      with inr Cons.prems have "go_standby_loop e idx self = (r, self1, ev)" by simp
      then show ?thesis by (rule Cons.IH)
    next
      case active: False
      show ?thesis
      proof (cases "length (hd_device_names self) \<le> i")
        case True
        with inr active Cons.prems show ?thesis by (auto simp add: standby_only_refl)
      next
        case False
        show ?thesis
        proof (cases "subprocess_run e ?argv")
          case (Inl err)
          with inr active False Cons.prems nw show ?thesis
            by (auto simp add: standby_only_refl Let_def)
        next
          case (Inr res)
          obtain returncode stdout where res: "res = (returncode, stdout)" by (cases res)
          show ?thesis
          proof (cases "returncode = 0")
            case True
            obtain r' s' ev' where rec: "go_standby_loop e idx ?self1 = (r', s', ev')"
              by (cases "go_standby_loop e idx ?self1")
            from Cons.IH [OF rec] have ih: "standby_only ?self1 s'" "\<forall>x \<in> set ev'. guard_event x"
              by simp_all
            have "standby_only self ?self1" by (rule standby_only_states)
            from this ih(1) have so: "standby_only self s'" by (rule standby_only_trans)
            from inr active False True Cons.prems Inr res rec have "self1 = s'" "ev = Run ?argv # ev'"
              by (auto simp add: Let_def)
            with so ih(2) nw show ?thesis by simp
          next
            case bad: False
            with inr active False Cons.prems Inr res nw show ?thesis
              by (auto simp add: standby_only_refl Let_def)
          qed
        qed
      qed
    qed
  qed
qed

lemma check_standby_state_frame:
  "check_standby_state e self = (r, self1, ev) \<Longrightarrow>
   standby_only self self1 \<and> (\<forall>x \<in> set ev. guard_event x)"
proof -
  assume a: "check_standby_state e self = (r, self1, ev)"
  obtain r' s' ev' where l: "check_standby_loop e [0..<nat (count self)] self = (r', s', ev')"
    by (cases "check_standby_loop e [0..<nat (count self)] self")
  from check_standby_loop_frame [OF l] a l show ?thesis
    by (cases r') (auto simp add: check_standby_state_def)
qed

lemma run_standby_guard_frame:
  "run_standby_guard e self = (r, self1, ev) \<Longrightarrow>
   standby_only self self1 \<and> (\<forall>x \<in> set ev. guard_event x)"
proof -
  assume a: "run_standby_guard e self = (r, self1, ev)"
  obtain r1 s1 ev1 where c: "check_standby_state e self = (r1, s1, ev1)"
    by (cases "check_standby_state e self")
  note f1 = check_standby_state_frame [OF c]
  obtain r2 s2 ev2 where g: "go_standby_state e s1 = (r2, s2, ev2)"
    by (cases "go_standby_state e s1")
  then have "go_standby_loop e [0..<nat (count s1)] s1 = (r2, s2, ev2)"
    by (simp add: go_standby_state_def)
  note f2 = go_standby_loop_frame [OF this]
  from f1 f2 have so2: "standby_only self s2" by (blast intro: standby_only_trans)
  note upd = standby_only_flag
  have lg: "\<And>t. guard_event (LogMsg LOG_INFO t)" by (simp add: guard_event_def)
  from a c g f1 f2 so2 upd lg show ?thesis
    by (cases r1; cases r2)
       (auto simp add: run_standby_guard_def Let_def split: if_splits sum.splits)
qed

lemma HdZone_callback_func_frame:
  "HdZone_callback_func e self = (r, self1, ev) \<Longrightarrow>
   standby_only self self1 \<and> (\<forall>x \<in> set ev. guard_event x)"
  using run_standby_guard_frame [of e self r self1 ev]
  by (auto simp add: HdZone_callback_func_def standby_only_refl split: if_splits)


lemma guard_event_no_write: "guard_event x \<Longrightarrow> \<not> is_fan_level_write x"
  by (cases x) (simp_all add: guard_event_def is_fan_level_write_def)

lemma guard_event_no_error: "guard_event x \<Longrightarrow> \<not> is_error_log x"
  by (cases x) (simp_all add: guard_event_def is_error_log_def LOG_INFO_def LOG_ERROR_def)

lemma standby_only_fields:
  assumes "standby_only self self1"
  shows "last_time self1 = last_time self" "last_temp self1 = last_temp self"
    "last_level self1 = last_level self" "sensitivity self1 = sensitivity self"
    "polling self1 = polling self" "name self1 = name self"
    "hwmon_path self1 = hwmon_path self" "get_temp_func self1 = get_temp_func self"
    "count self1 = count self" "standby_guard_enabled self1 = standby_guard_enabled self"
    "standby_hd_limit self1 = standby_hd_limit self"
    "hd_device_names self1 = hd_device_names self" "smartctl_path self1 = smartctl_path self"
proof -
  from assms have e: "blank_standby self1 = blank_standby self"
    by (simp add: standby_only_def)
  from arg_cong [OF e, of last_time] show "last_time self1 = last_time self"
    by (simp add: blank_standby_def)
  from arg_cong [OF e, of last_temp] show "last_temp self1 = last_temp self"
    by (simp add: blank_standby_def)
  from arg_cong [OF e, of last_level] show "last_level self1 = last_level self"
    by (simp add: blank_standby_def)
  from arg_cong [OF e, of sensitivity] show "sensitivity self1 = sensitivity self"
    by (simp add: blank_standby_def)
  from arg_cong [OF e, of polling] show "polling self1 = polling self"
    by (simp add: blank_standby_def)
  from arg_cong [OF e, of name] show "name self1 = name self"
    by (simp add: blank_standby_def)
  from arg_cong [OF e, of hwmon_path] show "hwmon_path self1 = hwmon_path self"
    by (simp add: blank_standby_def)
  from arg_cong [OF e, of get_temp_func] show "get_temp_func self1 = get_temp_func self"
    by (simp add: blank_standby_def)
  from arg_cong [OF e, of count] show "count self1 = count self"
    by (simp add: blank_standby_def)
  from arg_cong [OF e, of standby_guard_enabled] show "standby_guard_enabled self1 = standby_guard_enabled self"
    by (simp add: blank_standby_def)
  from arg_cong [OF e, of standby_hd_limit] show "standby_hd_limit self1 = standby_hd_limit self"
    by (simp add: blank_standby_def)
  from arg_cong [OF e, of hd_device_names] show "hd_device_names self1 = hd_device_names self"
    by (simp add: blank_standby_def)
  from arg_cong [OF e, of smartctl_path] show "smartctl_path self1 = smartctl_path self"
    by (simp add: blank_standby_def)
qed

subsection \<open>Hysteresis\<close>

text \<open>
  C2. A tick that is due and reads a temperature closer than \<open>sensitivity\<close> to
  \<open>last_temp\<close> returns with \<open>last_temp\<close> and \<open>last_level\<close> as they were, with
  \<open>last_time\<close> set to the current time, and without a fan-level write: in a CPU zone
  the object changes in \<open>last_time\<close> only and the one event is the debug message; in an
  HD zone the object and the events are those of the standby guard, which touches neither
  field and runs no \<^verbatim>\<open>ipmitool\<close>.
\<close>

theorem tick_within_sensitivity:
  "(\<not> fl (time_fc e - last_time c) < polling c \<and> call_get_temp_func e c = Inr t \<and>
    \<bar>fl (t - last_temp c)\<bar> < sensitivity c \<longrightarrow>
      CpuZone_run e c = (Return (), c\<lparr>last_time := time_fc e\<rparr>, [msg_new_temperature c t]))
   \<and>
   (\<not> fl (time_fc e - last_time h) < polling h \<and>
    HdZone_callback_func e (h\<lparr>last_time := time_fc e\<rparr>) = (Return (), h1, ev1) \<and>
    call_get_temp_func e h = Inr t \<and> \<bar>fl (t - last_temp h)\<bar> < sensitivity h \<longrightarrow>
      HdZone_run e h = (Return (), h1, ev1 @ [msg_new_temperature h t]) \<and>
      last_temp h1 = last_temp h \<and> last_level h1 = last_level h \<and> last_time h1 = time_fc e \<and>
      (\<forall>x \<in> set (ev1 @ [msg_new_temperature h t]). \<not> is_fan_level_write x))"
proof -
  have cpu: "CpuZone_run e c = (Return (), c\<lparr>last_time := time_fc e\<rparr>, [msg_new_temperature c t])"
    if a: "\<not> fl (time_fc e - last_time c) < polling c" "call_get_temp_func e c = Inr t"
      "\<bar>fl (t - last_temp c)\<bar> < sensitivity c"
  proof -
    let ?c1 = "c\<lparr>last_time := time_fc e\<rparr>"
    have cb: "callback_func e ?c1 = (Return (), ?c1, [])" by (simp add: callback_func_def)
    have rd: "call_get_temp_func e ?c1 = Inr t"
      using a temp_func_frame [of ?c1 c e] by simp
    from a have "\<bar>fl (t - last_temp ?c1)\<bar> < sensitivity ?c1" by simp
    from run_within_sensitivity [where cb = callback_func and e = e and self = c and after = ?c1
        and evs = "[]" and t = t] cb rd this a
    show ?thesis by (simp add: CpuZone_run_def msg_new_temperature_def)
  qed
  have hd: "HdZone_run e h = (Return (), h1, ev1 @ [msg_new_temperature h t]) \<and>
      last_temp h1 = last_temp h \<and> last_level h1 = last_level h \<and> last_time h1 = time_fc e \<and>
      (\<forall>x \<in> set (ev1 @ [msg_new_temperature h t]). \<not> is_fan_level_write x)"
    if a: "\<not> fl (time_fc e - last_time h) < polling h"
      "HdZone_callback_func e (h\<lparr>last_time := time_fc e\<rparr>) = (Return (), h1, ev1)"
      "call_get_temp_func e h = Inr t" "\<bar>fl (t - last_temp h)\<bar> < sensitivity h"
  proof -
    let ?h0 = "h\<lparr>last_time := time_fc e\<rparr>"
    note fr = HdZone_callback_func_frame [OF a(2)]
    then have so: "standby_only ?h0 h1" and nw: "\<forall>x \<in> set ev1. \<not> is_fan_level_write x"
      by (simp_all add: guard_event_no_write)
    note f = standby_only_fields [OF so]
    have rd: "call_get_temp_func e h1 = Inr t"
      using a temp_func_frame [of h1 h e] f by simp
    from a f have "\<bar>fl (t - last_temp h1)\<bar> < sensitivity h1" by simp
    from run_within_sensitivity [where cb = HdZone_callback_func and e = e and self = h
        and after = h1 and evs = ev1 and t = t] a(1,2) rd this f
    have r: "HdZone_run e h = (Return (), h1, ev1 @ [msg_new_temperature h t])"
      by (simp add: HdZone_run_def msg_new_temperature_def)
    have "\<not> is_fan_level_write (msg_new_temperature h t)"
      by (simp add: is_fan_level_write_def msg_new_temperature_def)
    with r f nw show ?thesis by simp
  qed
  from cpu hd show ?thesis by blast
qed

lemma hd_constructed:
  "HdZone_init (world 100 (hd_files 38000) (smartctl [])) std_log std_ipmi
     (no_config\<lparr>cfg_count := Some 4, cfg_hd_names := Some ''/dev/d0 /dev/d1 /dev/d2 /dev/d3'',
        cfg_hwmon_path := Some ''/h0 /h1 /h2 /h3'', cfg_standby_guard_enabled := Some True\<rparr>)
   = (Return hd_example,
      map (\<lambda>d. Run [''/usr/sbin/smartctl'', ''-i'', ''-n'', ''standby'', d])
        [''/dev/d0'', ''/dev/d1'', ''/dev/d2'', ''/dev/d3''])"
  by code_simp


theorem tick_within_sensitivity_witness:
  "CpuZone_run (world 200 (files [(''/t0'', 42500)]) no_command)
     (cpu_example\<lparr>last_temp := 40, last_level := 56\<rparr>) =
     (Return (), cpu_example\<lparr>last_temp := 40, last_level := 56, last_time := 200\<rparr>,
      [msg_new_temperature cpu_example (85 / 2)]) \<and>
   HdZone_run (world 200 (hd_files 41000) (smartctl [''/dev/d2'']))
     (hd_example\<lparr>last_temp := 40, last_level := 67\<rparr>) =
     (Return (),
      hd_example\<lparr>last_temp := 40, last_level := 67, last_time := 200, standby_flag := True,
        standby_change_timestamp := 200, standby_array_states := [True, True, True, True]\<rparr>,
      guard_queries [''/dev/d0'', ''/dev/d1'', ''/dev/d2'', ''/dev/d3''] @
      [LogMsg LOG_INFO (Fmt ''Standby guard: Change ACTIVE to STANDBY after {:.1f} hour(s)[{}]''
         [R (fl (fl (200 - 100) / 3600)), S ''AASA''])] @
      guard_writes [''/dev/d0'', ''/dev/d1'', ''/dev/d3''] @
      [msg_new_temperature hd_example 41])"
proof -
  let ?w = "world 200 (files [(''/t0'', 42500)]) no_command"
  let ?c = "cpu_example\<lparr>last_temp := 40, last_level := 56\<rparr>"
  let ?v = "world 200 (hd_files 41000) (smartctl [''/dev/d2''])"
  let ?h = "hd_example\<lparr>last_temp := 40, last_level := 67\<rparr>"
  let ?h1 = "hd_example\<lparr>last_temp := 40, last_level := 67, last_time := 200, standby_flag := True,
        standby_change_timestamp := 200, standby_array_states := [True, True, True, True]\<rparr>"
  let ?ev1 = "guard_queries [''/dev/d0'', ''/dev/d1'', ''/dev/d2'', ''/dev/d3''] @
      [LogMsg LOG_INFO (Fmt ''Standby guard: Change ACTIVE to STANDBY after {:.1f} hour(s)[{}]''
         [R (fl (fl (200 - 100) / 3600)), S ''AASA''])] @
      guard_writes [''/dev/d0'', ''/dev/d1'', ''/dev/d3'']"
  have c1: "\<not> fl (time_fc ?w - last_time ?c) < polling ?c" by code_simp
  have c2: "call_get_temp_func ?w ?c = Inr (85 / 2)" by code_simp
  have c3: "\<bar>fl (85 / 2 - last_temp ?c)\<bar> < sensitivity ?c" by code_simp
  have d1: "\<not> fl (time_fc ?v - last_time ?h) < polling ?h" by code_simp
  have d2: "HdZone_callback_func ?v (?h\<lparr>last_time := time_fc ?v\<rparr>) = (Return (), ?h1, ?ev1)"
    by code_simp
  have d3: "call_get_temp_func ?v ?h = Inr 41" by code_simp
  have d4: "\<bar>fl (41 - last_temp ?h)\<bar> < sensitivity ?h" by code_simp
  have tw: "time_fc ?w = 200" by (simp add: world_def)
  have nm: "msg_new_temperature ?c (85 / 2) = msg_new_temperature cpu_example (85 / 2)"
    "msg_new_temperature ?h 41 = msg_new_temperature hd_example 41"
    by (simp_all add: msg_new_temperature_def)
  from tick_within_sensitivity [where e = ?w and c = ?c and t = "85 / 2"] c1 c2 c3
  have a: "CpuZone_run ?w ?c = (Return (), ?c\<lparr>last_time := time_fc ?w\<rparr>, [msg_new_temperature ?c (85 / 2)])"
    by blast
  from tick_within_sensitivity [where e = ?v and h = ?h and t = 41 and ?h1.0 = ?h1 and ?ev1.0 = ?ev1]
    d1 d2 d3 d4
  have b: "HdZone_run ?v ?h = (Return (), ?h1, ?ev1 @ [msg_new_temperature ?h 41])"
    by blast
  from a b show ?thesis unfolding tw nm by simp
qed

subsection \<open>A tick that fails\<close>

lemma gain_level_blank: "gain_level (blank_standby s) t = gain_level s t"
  by (simp add: gain_level_def blank_standby_def)

lemma set_fan_level_blank: "set_fan_level e (blank_standby s) l = set_fan_level e s l"
  by (simp add: set_fan_level_def blank_standby_def)

lemma standby_only_gain_level: "standby_only self self1 \<Longrightarrow> gain_level self1 t = gain_level self t"
  using gain_level_blank [of self1 t] gain_level_blank [of self t]
  by (simp add: standby_only_def)

lemma standby_only_set_fan_level:
  "standby_only self self1 \<Longrightarrow> set_fan_level e self1 l = set_fan_level e self l"
  using set_fan_level_blank [of e self1 l] set_fan_level_blank [of e self l]
  by (simp add: standby_only_def)

lemma gain_level_last: "gain_level (s\<lparr>last_time := a, last_temp := b\<rparr>) t = gain_level s t"
  "gain_level (s\<lparr>last_temp := b\<rparr>) t = gain_level s t"
  "gain_level (s\<lparr>last_time := a\<rparr>) t = gain_level s t"
  by (simp_all add: gain_level_def)

lemma set_fan_level_last:
  "set_fan_level e (s\<lparr>last_time := a, last_temp := b, last_level := c\<rparr>) l = set_fan_level e s l"
  "set_fan_level e (s\<lparr>last_temp := b, last_level := c\<rparr>) l = set_fan_level e s l"
  "set_fan_level e (s\<lparr>last_time := a\<rparr>) l = set_fan_level e s l"
  by (simp_all add: set_fan_level_def)

text \<open>
  C4, as stated, fails: \<^verbatim>\<open>run\<close> assigns \<open>last_time\<close> before it reads the sensors, and
  \<open>last_temp\<close> and \<open>last_level\<close> before it writes the level. A read that fails leaves
  \<open>last_time\<close> at the current time (200, not 97); a write that fails leaves all three
  fields changed.
\<close>

theorem failed_tick_counterexample:
  "CpuZone_run (world 200 (files []) no_command) cpu_example =
     (Raise (FileNotFoundError ''/t0''), cpu_example\<lparr>last_time := 200\<rparr>, []) \<and>
   CpuZone_run (world 200 (files [(''/t0'', 42500)]) (missing_ipmitool no_command)) cpu_example =
     (Raise (FileNotFoundError ''/usr/bin/ipmitool''),
      cpu_example\<lparr>last_time := 200, last_temp := 85 / 2, last_level := 57\<rparr>,
      [msg_new_temperature cpu_example (85 / 2), ipmitool_level 0 57]) \<and>
   last_time cpu_example = 97 \<and> last_temp cpu_example = 0 \<and> last_level cpu_example = 0"
  by code_simp

text \<open>
  C4, amended. A sensor read that fails ends the tick with the exception, with
  \<open>last_temp\<close> and \<open>last_level\<close> as before the tick and \<open>last_time\<close> already set to
  the current time; a fan-level write that fails ends the tick with the exception after
  \<open>last_time\<close>, \<open>last_temp\<close> and \<open>last_level\<close> were set to the current time, the
  reading and the new level. In an HD zone the object is the one the standby guard
  returned.
\<close>

theorem failed_tick_state:
  "(\<not> fl (time_fc e - last_time c) < polling c \<and> call_get_temp_func e c = Inl err \<longrightarrow>
      CpuZone_run e c = (Raise err, c\<lparr>last_time := time_fc e\<rparr>, []))
   \<and>
   (\<not> fl (time_fc e - last_time c) < polling c \<and> call_get_temp_func e c = Inr t \<and>
    \<not> \<bar>fl (t - last_temp c)\<bar> < sensitivity c \<and> gain_level c t = Inr (g, l) \<and>
    l \<noteq> last_level c \<and> set_fan_level e c l = (Raise err, evw) \<longrightarrow>
      CpuZone_run e c =
        (Raise err, c\<lparr>last_time := time_fc e, last_temp := t, last_level := l\<rparr>,
         [msg_new_temperature c t] @ evw))
   \<and>
   (\<not> fl (time_fc e - last_time h) < polling h \<and>
    HdZone_callback_func e (h\<lparr>last_time := time_fc e\<rparr>) = (Return (), h1, ev1) \<and>
    call_get_temp_func e h = Inl err \<longrightarrow>
      HdZone_run e h = (Raise err, h1, ev1) \<and>
      last_time h1 = time_fc e \<and> last_temp h1 = last_temp h \<and> last_level h1 = last_level h)
   \<and>
   (\<not> fl (time_fc e - last_time h) < polling h \<and>
    HdZone_callback_func e (h\<lparr>last_time := time_fc e\<rparr>) = (Return (), h1, ev1) \<and>
    call_get_temp_func e h = Inr t \<and>
    \<not> \<bar>fl (t - last_temp h)\<bar> < sensitivity h \<and> gain_level h t = Inr (g, l) \<and>
    l \<noteq> last_level h \<and> set_fan_level e h l = (Raise err, evw) \<longrightarrow>
      HdZone_run e h =
        (Raise err, h1\<lparr>last_temp := t, last_level := l\<rparr>, ev1 @ [msg_new_temperature h t] @ evw) \<and>
      last_time h1 = time_fc e)"
proof -
  let ?c1 = "c\<lparr>last_time := time_fc e\<rparr>"
  have cb: "callback_func e ?c1 = (Return (), ?c1, [])" by (simp add: callback_func_def)
  have rdc: "call_get_temp_func e ?c1 = call_get_temp_func e c"
    using temp_func_frame [of ?c1 c e] by simp
  have p1: "CpuZone_run e c = (Raise err, ?c1, [])"
    if a: "\<not> fl (time_fc e - last_time c) < polling c" "call_get_temp_func e c = Inl err"
    using run_read_raises [where cb = callback_func and e = e and self = c and after = ?c1
        and evs = "[]" and err = err] a cb rdc
    by (simp add: CpuZone_run_def)
  have p2: "CpuZone_run e c =
        (Raise err, c\<lparr>last_time := time_fc e, last_temp := t, last_level := l\<rparr>,
         [msg_new_temperature c t] @ evw)"
    if a: "\<not> fl (time_fc e - last_time c) < polling c" "call_get_temp_func e c = Inr t"
      "\<not> \<bar>fl (t - last_temp c)\<bar> < sensitivity c" "gain_level c t = Inr (g, l)"
      "l \<noteq> last_level c" "set_fan_level e c l = (Raise err, evw)"
    using run_write_raises [where cb = callback_func and e = e and self = c and after = ?c1
        and evs = "[]" and err = err and t = t and g = g and l = l and evw = evw] a cb rdc
    by (simp add: CpuZone_run_def gain_level_last set_fan_level_last msg_new_temperature_def)
  let ?h0 = "h\<lparr>last_time := time_fc e\<rparr>"
  have p3: "HdZone_run e h = (Raise err, h1, ev1) \<and>
      last_time h1 = time_fc e \<and> last_temp h1 = last_temp h \<and> last_level h1 = last_level h"
    if a: "\<not> fl (time_fc e - last_time h) < polling h"
      "HdZone_callback_func e ?h0 = (Return (), h1, ev1)" "call_get_temp_func e h = Inl err"
  proof -
    from HdZone_callback_func_frame [OF a(2)] have so: "standby_only ?h0 h1" by simp
    note f = standby_only_fields [OF so]
    have rd: "call_get_temp_func e h1 = Inl err"
      using a temp_func_frame [of h1 h e] f by simp
    from run_read_raises [where cb = HdZone_callback_func and e = e and self = h and after = h1
        and evs = ev1 and err = err] a(1,2) rd f
    show ?thesis by (simp add: HdZone_run_def)
  qed
  have p4: "HdZone_run e h =
        (Raise err, h1\<lparr>last_temp := t, last_level := l\<rparr>, ev1 @ [msg_new_temperature h t] @ evw) \<and>
      last_time h1 = time_fc e"
    if a: "\<not> fl (time_fc e - last_time h) < polling h"
      "HdZone_callback_func e ?h0 = (Return (), h1, ev1)" "call_get_temp_func e h = Inr t"
      "\<not> \<bar>fl (t - last_temp h)\<bar> < sensitivity h" "gain_level h t = Inr (g, l)"
      "l \<noteq> last_level h" "set_fan_level e h l = (Raise err, evw)"
  proof -
    from HdZone_callback_func_frame [OF a(2)] have so: "standby_only ?h0 h1" by simp
    note f = standby_only_fields [OF so]
    have rd: "call_get_temp_func e h1 = Inr t"
      using a temp_func_frame [of h1 h e] f by simp
    have gl: "gain_level (h1\<lparr>last_temp := t\<rparr>) t = Inr (g, l)"
      using standby_only_gain_level [OF so, of t] a(5) by (simp add: gain_level_last)
    have sf: "set_fan_level e (h1\<lparr>last_temp := t, last_level := l\<rparr>) l = (Raise err, evw)"
      using standby_only_set_fan_level [OF so, of e l] a(7)
      by (simp add: set_fan_level_last)
    from a f have s: "\<not> \<bar>fl (t - last_temp h1)\<bar> < sensitivity h1" "l \<noteq> last_level h1" by simp_all
    from run_write_raises [where cb = HdZone_callback_func and e = e and self = h and after = h1
        and evs = ev1 and err = err and t = t and g = g and l = l and evw = evw]
      a(1,2) rd s gl sf f
    show ?thesis by (simp add: HdZone_run_def msg_new_temperature_def)
  qed
  from p1 p2 p3 p4 show ?thesis by blast
qed


theorem failed_tick_state_witness:
  "CpuZone_run (world 200 (files []) no_command) cpu_example =
     (Raise (FileNotFoundError ''/t0''), cpu_example\<lparr>last_time := 200\<rparr>, []) \<and>
   CpuZone_run (world 200 (files [(''/t0'', 42500)]) (missing_ipmitool no_command)) cpu_example =
     (Raise (FileNotFoundError ''/usr/bin/ipmitool''),
      cpu_example\<lparr>last_time := 200, last_temp := 85 / 2, last_level := 57\<rparr>,
      [msg_new_temperature cpu_example (85 / 2), ipmitool_level 0 57]) \<and>
   HdZone_run (world 200 (files []) (smartctl [])) hd_example =
     (Raise (FileNotFoundError ''/h0''), hd_example\<lparr>last_time := 200\<rparr>,
      guard_queries [''/dev/d0'', ''/dev/d1'', ''/dev/d2'', ''/dev/d3'']) \<and>
   HdZone_run (world 200 (hd_files 41000) (missing_ipmitool (smartctl []))) hd_example =
     (Raise (FileNotFoundError ''/usr/bin/ipmitool''),
      hd_example\<lparr>last_time := 200, last_temp := 41, last_level := 84\<rparr>,
      guard_queries [''/dev/d0'', ''/dev/d1'', ''/dev/d2'', ''/dev/d3''] @
      [msg_new_temperature hd_example 41, ipmitool_level 1 84])"
proof -
  let ?w1 = "world 200 (files []) no_command"
  let ?w2 = "world 200 (files [(''/t0'', 42500)]) (missing_ipmitool no_command)"
  let ?v1 = "world 200 (files []) (smartctl [])"
  let ?v2 = "world 200 (hd_files 41000) (missing_ipmitool (smartctl []))"
  let ?q = "guard_queries [''/dev/d0'', ''/dev/d1'', ''/dev/d2'', ''/dev/d3'']"
  let ?f = "FileNotFoundError ''/usr/bin/ipmitool''"
  have a1: "\<not> fl (time_fc ?w1 - last_time cpu_example) < polling cpu_example" by code_simp
  have a2: "call_get_temp_func ?w1 cpu_example = Inl (FileNotFoundError ''/t0'')" by code_simp
  from failed_tick_state [where e = ?w1 and c = cpu_example and err = "FileNotFoundError ''/t0''"] a1 a2
  have r1: "CpuZone_run ?w1 cpu_example =
      (Raise (FileNotFoundError ''/t0''), cpu_example\<lparr>last_time := time_fc ?w1\<rparr>, [])"
    by blast
  have b1: "\<not> fl (time_fc ?w2 - last_time cpu_example) < polling cpu_example" by code_simp
  have b2: "call_get_temp_func ?w2 cpu_example = Inr (85 / 2)" by code_simp
  have b3: "\<not> \<bar>fl (85 / 2 - last_temp cpu_example)\<bar> < sensitivity cpu_example" by code_simp
  have b4: "gain_level cpu_example (85 / 2) = Inr (2, 57)" by code_simp
  have b5: "57 \<noteq> last_level cpu_example" by code_simp
  have b6: "set_fan_level ?w2 cpu_example 57 = (Raise ?f, [ipmitool_level 0 57])" by code_simp
  from failed_tick_state [where e = ?w2 and c = cpu_example and err = ?f and t = "85 / 2"
      and g = 2 and l = 57 and evw = "[ipmitool_level 0 57]"] b1 b2 b3 b4 b5 b6
  have r2: "CpuZone_run ?w2 cpu_example =
      (Raise ?f, cpu_example\<lparr>last_time := time_fc ?w2, last_temp := 85 / 2, last_level := 57\<rparr>,
       [msg_new_temperature cpu_example (85 / 2)] @ [ipmitool_level 0 57])"
    by blast
  have c1: "\<not> fl (time_fc ?v1 - last_time hd_example) < polling hd_example" by code_simp
  have c2: "HdZone_callback_func ?v1 (hd_example\<lparr>last_time := time_fc ?v1\<rparr>) =
      (Return (), hd_example\<lparr>last_time := 200\<rparr>, ?q)" by code_simp
  have c3: "call_get_temp_func ?v1 hd_example = Inl (FileNotFoundError ''/h0'')" by code_simp
  from failed_tick_state [where e = ?v1 and h = hd_example and err = "FileNotFoundError ''/h0''"
      and ?h1.0 = "hd_example\<lparr>last_time := 200\<rparr>" and ?ev1.0 = ?q] c1 c2 c3
  have r3: "HdZone_run ?v1 hd_example =
      (Raise (FileNotFoundError ''/h0''), hd_example\<lparr>last_time := 200\<rparr>, ?q)"
    by blast
  have d1: "\<not> fl (time_fc ?v2 - last_time hd_example) < polling hd_example" by code_simp
  have d2: "HdZone_callback_func ?v2 (hd_example\<lparr>last_time := time_fc ?v2\<rparr>) =
      (Return (), hd_example\<lparr>last_time := 200\<rparr>, ?q)" by code_simp
  have d3: "call_get_temp_func ?v2 hd_example = Inr 41" by code_simp
  have d4: "\<not> \<bar>fl (41 - last_temp hd_example)\<bar> < sensitivity hd_example" by code_simp
  have d5: "gain_level hd_example 41 = Inr (3, 84)" by code_simp
  have d6: "84 \<noteq> last_level hd_example" by code_simp
  have d7: "set_fan_level ?v2 hd_example 84 = (Raise ?f, [ipmitool_level 1 84])" by code_simp
  from failed_tick_state [where e = ?v2 and h = hd_example and err = ?f and t = 41
      and g = 3 and l = 84 and evw = "[ipmitool_level 1 84]"
      and ?h1.0 = "hd_example\<lparr>last_time := 200\<rparr>" and ?ev1.0 = ?q] d1 d2 d3 d4 d5 d6 d7
  have r4: "HdZone_run ?v2 hd_example =
      (Raise ?f, hd_example\<lparr>last_time := 200, last_temp := 41, last_level := 84\<rparr>,
       ?q @ [msg_new_temperature hd_example 41] @ [ipmitool_level 1 84])"
    by blast
  have tw: "time_fc ?w1 = 200" "time_fc ?w2 = 200" by (simp_all add: world_def)
  from r1 r2 r3 r4 show ?thesis unfolding tw by simp
qed

end
